theory Spec2Isabelle
  imports Complex_Main
begin

section \<open>JavaScript strings and values\<close>

text \<open>
  A JavaScript string is modelled as a \<^typ>\<open>string\<close>: a list of 8-bit characters, read as
  the code units U+0000 to U+00FF (Latin-1). The accented letters of the Spanish texts
  of the program are single characters of this range.
\<close>

definition isSpace :: "char \<Rightarrow> bool" where
  "isSpace c = (c = CHR 0x09 \<or> c = CHR 0x0A \<or> c = CHR 0x0B \<or> c = CHR 0x0C \<or> c = CHR 0x0D
     \<or> c = CHR 0x20 \<or> c = CHR 0xA0)"

definition trim :: "string \<Rightarrow> string" where
  "trim s = rev (dropWhile isSpace (rev (dropWhile isSpace s)))"

definition toLowerChar :: "char \<Rightarrow> char" where
  "toLowerChar c =
     (let n = (of_char c :: nat) in
      if (65 \<le> n \<and> n \<le> 90) \<or> (192 \<le> n \<and> n \<le> 222 \<and> n \<noteq> 215)
      then char_of (n + 32) else c)"

definition toLowerCase :: "string \<Rightarrow> string" where
  "toLowerCase s = map toLowerChar s"

fun startsWith :: "string \<Rightarrow> string \<Rightarrow> bool" where
  "startsWith s [] = True"
| "startsWith [] (p # ps) = False"
| "startsWith (c # cs) (p # ps) = (c = p \<and> startsWith cs ps)"

fun str_includes :: "string \<Rightarrow> string \<Rightarrow> bool" where
  "str_includes [] p = (p = [])"
| "str_includes (c # cs) p = (startsWith (c # cs) p \<or> str_includes cs p)"

text \<open>\<open>patterns.some(pattern => content.includes(pattern))\<close>\<close>

fun some_includes :: "string \<Rightarrow> string list \<Rightarrow> bool" where
  "some_includes content [] = False"
| "some_includes content (p # ps) = (str_includes content p \<or> some_includes content ps)"

text \<open>
  \<open>content.replace(/^(a|b|...)/i, '')\<close>: the first alternative, in the order written, that
  the text starts with (letters compared without case) is removed; without a match the
  text is returned as it is.
\<close>

fun replace_prefix_ci :: "string list \<Rightarrow> string \<Rightarrow> string" where
  "replace_prefix_ci [] s = s"
| "replace_prefix_ci (a # as) s =
     (if startsWith (toLowerCase s) a then drop (length a) s else replace_prefix_ci as s)"

text \<open>The letters outside ASCII that the program's texts use.\<close>

definition a_acute :: char where "a_acute = CHR 0xE1"
definition e_acute :: char where "e_acute = CHR 0xE9"
definition i_acute :: char where "i_acute = CHR 0xED"
definition o_acute :: char where "o_acute = CHR 0xF3"
definition u_acute :: char where "u_acute = CHR 0xFA"
definition inv_excl :: char where "inv_excl = CHR 0xA1"
definition inv_quest :: char where "inv_quest = CHR 0xBF"
definition degree_sign :: char where "degree_sign = CHR 0xB0"

text \<open>
  JavaScript values as far as the program reads them: the values of a parsed JSON
  document, and \<open>undefined\<close>. A number is the finite double it denotes, as a rational.
  An object is the list of its properties (keys distinct, as \<open>JSON.parse\<close> leaves them).
\<close>

datatype json =
    JUndefined
  | JNull
  | JBool bool
  | JNum rat
  | JStr string
  | JArr "json list"
  | JObj "(string \<times> json) list"

text \<open>
  Exceptions are values. \<open>TypeError\<close> carries the engine's message, \<open>Error\<close> and
  \<open>ValidationError\<close> the message the program gives, \<open>PgError\<close> the code the database
  driver reports (\<open>23505\<close> unique violation, \<open>23503\<close> foreign key violation,
  \<open>22001\<close> value too long, \<open>23514\<close> check violation, \<open>ECONNREFUSED\<close>).
\<close>

datatype js_error =
    TypeError string
  | Error string
  | ValidationError string
  | PgError string

fun error_message :: "js_error \<Rightarrow> string" where
  "error_message (TypeError m) = m"
| "error_message (Error m) = m"
| "error_message (ValidationError m) = m"
| "error_message (PgError c) = c"

text \<open>Truthiness: \<open>!v\<close> is \<open>\<not> truthy v\<close>.\<close>

fun truthy :: "json \<Rightarrow> bool" where
  "truthy JUndefined = False"
| "truthy JNull = False"
| "truthy (JBool b) = b"
| "truthy (JNum r) = (r \<noteq> 0)"
| "truthy (JStr s) = (s \<noteq> [])"
| "truthy (JArr xs) = True"
| "truthy (JObj kvs) = True"

text \<open>
  Reading a property \<open>v.k\<close>: a \<open>TypeError\<close> on \<open>null\<close> and \<open>undefined\<close>, the stored value
  on an object, \<open>length\<close> on strings and arrays, \<open>undefined\<close> otherwise. (None of the
  property names the program reads is a method of a prototype.)
\<close>

fun get_prop :: "json \<Rightarrow> string \<Rightarrow> js_error + json" where
  "get_prop JUndefined k = Inl (TypeError (''Cannot read properties of undefined (reading '' @ k @ '')''))"
| "get_prop JNull k = Inl (TypeError (''Cannot read properties of null (reading '' @ k @ '')''))"
| "get_prop (JObj kvs) k = Inr (case map_of kvs k of None \<Rightarrow> JUndefined | Some v \<Rightarrow> v)"
| "get_prop (JStr s) k = Inr (if k = ''length'' then JNum (of_nat (length s)) else JUndefined)"
| "get_prop (JArr xs) k = Inr (if k = ''length'' then JNum (of_nat (length xs)) else JUndefined)"
| "get_prop (JBool b) k = Inr JUndefined"
| "get_prop (JNum r) k = Inr JUndefined"

section \<open>Webhook handshake (WebhookService.verifyWebhook, GET /webhook)\<close>

text \<open>
  \<open>verifyWebhook(mode, token, challenge)\<close> with the configured \<open>verifyToken\<close>. The
  arguments are strings (the route passes \<open>mode || ''\<close>, \<open>token || ''\<close>, \<open>challenge || ''\<close>),
  so no step of the \<open>try\<close> block raises; \<open>None\<close> is the \<open>null\<close> of a rejection.
\<close>

definition verifyWebhook :: "string \<Rightarrow> string \<Rightarrow> string \<Rightarrow> string \<Rightarrow> string option" where
  "verifyWebhook verifyToken mode token challenge =
     (if mode \<noteq> ''subscribe'' then None
      else if token \<noteq> verifyToken then None
      else if challenge = [] \<or> length challenge = 0 then None
      else Some challenge)"

datatype http_body = BodyText string | BodyError string

record http_response =
  hr_status :: nat
  hr_body :: http_body

definition query_or_empty :: "(string \<Rightarrow> string option) \<Rightarrow> string \<Rightarrow> string" where
  "query_or_empty q k = (case q k of None \<Rightarrow> [] | Some v \<Rightarrow> v)"

text \<open>
  The handler of \<open>GET /webhook\<close>. Its \<open>catch\<close> branch (status 500) handles an exception
  of the \<open>try\<close> block; \<open>verifyWebhook\<close> returns a value on every argument, so the
  handler's result is one of the two responses below.
\<close>

definition webhook_get :: "string \<Rightarrow> (string \<Rightarrow> string option) \<Rightarrow> http_response" where
  "webhook_get verifyToken q =
     (let mode = query_or_empty q ''hub.mode'';
          token = query_or_empty q ''hub.verify_token'';
          challenge = query_or_empty q ''hub.challenge''
      in case verifyWebhook verifyToken mode token challenge of
           None \<Rightarrow> \<lparr>hr_status = 403, hr_body = BodyError (''Verificaci'' @ [o_acute] @ ''n fallida'')\<rparr>
         | Some r \<Rightarrow> \<lparr>hr_status = 200, hr_body = BodyText r\<rparr>)"

section \<open>Webhook payloads (WebhookService.processWebhookPayload)\<close>

datatype event_type = EvText | EvImage | EvVideo | EvAudio | EvDocument | EvLocation | EvContact

record webhook_result =
  wr_success :: bool
  wr_eventType :: "event_type option"
  wr_message :: "json option"
  wr_error :: "string option"
  wr_shouldRespond :: "bool option"

record validation_result =
  vr_isValid :: bool
  vr_error :: "string option"

definition isArray :: "json \<Rightarrow> bool" where
  "isArray v = (case v of JArr xs \<Rightarrow> True | _ \<Rightarrow> False)"

definition typeof_object :: "json \<Rightarrow> bool" where
  "typeof_object v = (case v of JNull \<Rightarrow> True | JArr xs \<Rightarrow> True | JObj kvs \<Rightarrow> True | _ \<Rightarrow> False)"

definition nullish :: "json \<Rightarrow> bool" where
  "nullish v = (v = JUndefined \<or> v = JNull)"

text \<open>
  \<open>for (const x of v)\<close>: the elements of an array, the characters of a string, and a
  \<open>TypeError\<close> on every other value.
\<close>

definition iterate :: "json \<Rightarrow> js_error + json list" where
  "iterate v = (case v of
       JArr xs \<Rightarrow> Inr xs
     | JStr s \<Rightarrow> Inr (map (\<lambda>c. JStr [c]) s)
     | _ \<Rightarrow> Inl (TypeError ''not iterable''))"

text \<open>
  \<open>v > 0\<close>. On \<open>undefined\<close>, \<open>null\<close>, a boolean and a number the comparison is the one
  below; on a string, an array and an object it rests on the engine's conversion to a
  number, which is the parameter \<open>coerce\<close>.
\<close>

definition gt_zero :: "(json \<Rightarrow> bool) \<Rightarrow> json \<Rightarrow> bool" where
  "gt_zero coerce v = (case v of
       JUndefined \<Rightarrow> False
     | JNull \<Rightarrow> False
     | JBool b \<Rightarrow> b
     | JNum r \<Rightarrow> 0 < r
     | _ \<Rightarrow> coerce v)"

definition invalid_change :: string where
  "invalid_change = ''Valor de cambio inv'' @ [a_acute] @ ''lido''"

definition validate_change :: "json \<Rightarrow> js_error + string option" where
  "validate_change change =
     (case get_prop change ''field'' of
        Inl e \<Rightarrow> Inl e
      | Inr f \<Rightarrow>
          if f \<noteq> JStr ''messages'' then Inr None
          else (case get_prop change ''value'' of
                  Inl e \<Rightarrow> Inl e
                | Inr v \<Rightarrow>
                    if \<not> truthy v then Inr (Some invalid_change)
                    else (case get_prop v ''messaging_product'' of
                            Inl e \<Rightarrow> Inl e
                          | Inr mp \<Rightarrow>
                              if \<not> truthy mp \<or> mp \<noteq> JStr ''whatsapp''
                              then Inr (Some invalid_change) else Inr None)))"

fun validate_changes :: "json list \<Rightarrow> js_error + string option" where
  "validate_changes [] = Inr None"
| "validate_changes (c # cs) =
     (case validate_change c of
        Inl e \<Rightarrow> Inl e
      | Inr (Some err) \<Rightarrow> Inr (Some err)
      | Inr None \<Rightarrow> validate_changes cs)"

definition invalid_entry :: string where
  "invalid_entry = ''Entrada inv'' @ [a_acute] @ ''lida: faltan campos requeridos''"

definition validate_entry :: "json \<Rightarrow> js_error + string option" where
  "validate_entry entry =
     (case get_prop entry ''id'' of
        Inl e \<Rightarrow> Inl e
      | Inr i \<Rightarrow>
          if \<not> truthy i then Inr (Some invalid_entry)
          else (case get_prop entry ''changes'' of
                  Inl e \<Rightarrow> Inl e
                | Inr chs \<Rightarrow>
                    if \<not> truthy chs \<or> \<not> isArray chs then Inr (Some invalid_entry)
                    else (case iterate chs of
                            Inl e \<Rightarrow> Inl e
                          | Inr cs \<Rightarrow> validate_changes cs)))"

fun validate_entries :: "json list \<Rightarrow> js_error + string option" where
  "validate_entries [] = Inr None"
| "validate_entries (e # es) =
     (case validate_entry e of
        Inl err \<Rightarrow> Inl err
      | Inr (Some err) \<Rightarrow> Inr (Some err)
      | Inr None \<Rightarrow> validate_entries es)"

text \<open>The \<open>try\<close> block of \<open>validateWebhookPayload\<close>: \<open>Inr None\<close> is \<open>{ isValid: true }\<close>.\<close>

definition validateWebhookPayload_try :: "json \<Rightarrow> js_error + string option" where
  "validateWebhookPayload_try payload =
     (if \<not> truthy payload \<or> \<not> typeof_object payload
      then Inr (Some (''Payload inv'' @ [a_acute] @ ''lido o vac'' @ [i_acute] @ ''o''))
      else (case get_prop payload ''object'' of
              Inl e \<Rightarrow> Inl e
            | Inr ob \<Rightarrow>
                if ob \<noteq> JStr ''whatsapp_business_account''
                then Inr (Some ''Object debe ser whatsapp_business_account'')
                else (case get_prop payload ''entry'' of
                        Inl e \<Rightarrow> Inl e
                      | Inr en \<Rightarrow>
                          if \<not> isArray en \<or> en = JArr []
                          then Inr (Some (''Entry debe ser un array no vac'' @ [i_acute] @ ''o''))
                          else (case iterate en of
                                  Inl e \<Rightarrow> Inl e
                                | Inr es \<Rightarrow> validate_entries es))))"

definition validateWebhookPayload :: "json \<Rightarrow> validation_result" where
  "validateWebhookPayload payload =
     (case validateWebhookPayload_try payload of
        Inr None \<Rightarrow> \<lparr>vr_isValid = True, vr_error = None\<rparr>
      | Inr (Some err) \<Rightarrow> \<lparr>vr_isValid = False, vr_error = Some err\<rparr>
      | Inl e \<Rightarrow> \<lparr>vr_isValid = False,
                    vr_error = Some (''Error de validaci'' @ [o_acute] @ ''n: '' @ error_message e)\<rparr>)"

definition determineEventType :: "json \<Rightarrow> event_type" where
  "determineEventType ty =
     (if ty = JStr ''text'' then EvText
      else if ty = JStr ''image'' then EvImage
      else if ty = JStr ''video'' then EvVideo
      else if ty = JStr ''audio'' then EvAudio
      else if ty = JStr ''document'' then EvDocument
      else if ty = JStr ''location'' then EvLocation
      else if ty = JStr ''contact'' then EvContact
      else EvText)"

definition supportedTypes :: "json list" where
  "supportedTypes = [JStr ''text'', JStr ''image'', JStr ''video'', JStr ''audio'',
     JStr ''document'', JStr ''location'', JStr ''contact'']"

text \<open>\<open>isProcessableMessage\<close>, on the values of \<open>message.from\<close> and \<open>message.type\<close>.\<close>

definition isProcessableMessage :: "json \<Rightarrow> json \<Rightarrow> bool" where
  "isProcessableMessage frm ty = (if \<not> truthy frm then False else List.member supportedTypes ty)"

definition shouldAutoRespond :: "json \<Rightarrow> bool" where
  "shouldAutoRespond ty = (if ty = JStr ''text'' then True else if ty = JStr ''audio'' then True else False)"

text \<open>
  \<open>textMessage.text?.body?.trim()\<close>: \<open>undefined\<close> when \<open>text\<close> or \<open>body\<close> is \<open>null\<close> or
  \<open>undefined\<close>, the trimmed string when \<open>body\<close> is a string, and a \<open>TypeError\<close> when
  \<open>body\<close> is any other value (it has no function \<open>trim\<close>).
\<close>

definition text_body_trim :: "json \<Rightarrow> js_error + json" where
  "text_body_trim message =
     (case get_prop message ''text'' of
        Inl e \<Rightarrow> Inl e
      | Inr t \<Rightarrow>
          if nullish t then Inr JUndefined
          else (case get_prop t ''body'' of
                  Inl e \<Rightarrow> Inl e
                | Inr b \<Rightarrow>
                    if nullish b then Inr JUndefined
                    else (case b of
                            JStr s \<Rightarrow> Inr (JStr (trim s))
                          | _ \<Rightarrow> Inl (TypeError ''trim is not a function''))))"

text \<open>The \<open>try\<close> block of \<open>processIncomingMessage\<close>; \<open>Inr None\<close> is the result \<open>null\<close>.\<close>

definition processIncomingMessage_try :: "json \<Rightarrow> js_error + webhook_result option" where
  "processIncomingMessage_try message =
     (case get_prop message ''id'' of
        Inl e \<Rightarrow> Inl e
      | Inr mid \<Rightarrow>
         (case get_prop message ''from'' of
            Inl e \<Rightarrow> Inl e
          | Inr frm \<Rightarrow>
             (case get_prop message ''type'' of
                Inl e \<Rightarrow> Inl e
              | Inr ty \<Rightarrow>
                 (let eventType = determineEventType ty in
                  if \<not> isProcessableMessage frm ty then Inr None
                  else if ty = JStr ''text''
                  then (case text_body_trim message of
                          Inl e \<Rightarrow> Inl e
                        | Inr b \<Rightarrow>
                            if \<not> truthy b then Inr None
                            else Inr (Some \<lparr>wr_success = True, wr_eventType = Some eventType,
                                   wr_message = Some message, wr_error = None,
                                   wr_shouldRespond = Some (shouldAutoRespond ty)\<rparr>))
                  else Inr (Some \<lparr>wr_success = True, wr_eventType = Some eventType,
                         wr_message = Some message, wr_error = None,
                         wr_shouldRespond = Some (shouldAutoRespond ty)\<rparr>)))))"

text \<open>
  The \<open>catch\<close> block of \<open>processIncomingMessage\<close> logs \<open>message.id\<close> and \<open>message.type\<close>:
  when \<open>message\<close> is \<open>null\<close> or \<open>undefined\<close> that read raises again, out of the function.
\<close>

definition processIncomingMessage :: "json \<Rightarrow> js_error + webhook_result option" where
  "processIncomingMessage message =
     (case processIncomingMessage_try message of
        Inr r \<Rightarrow> Inr r
      | Inl e \<Rightarrow> (case get_prop message ''id'' of Inl e' \<Rightarrow> Inl e' | Inr i \<Rightarrow> Inr None))"

fun process_messages :: "json list \<Rightarrow> js_error + webhook_result option" where
  "process_messages [] = Inr None"
| "process_messages (m # ms) =
     (case processIncomingMessage m of
        Inl e \<Rightarrow> Inl e
      | Inr (Some r) \<Rightarrow> Inr (Some r)
      | Inr None \<Rightarrow> process_messages ms)"

text \<open>
  One change of \<open>processWebhookEntry\<close>'s loop. The \<open>statuses\<close> are only logged
  (\<open>statuses && statuses.length > 0\<close> raises on no value).
\<close>

definition process_change :: "(json \<Rightarrow> bool) \<Rightarrow> json \<Rightarrow> js_error + webhook_result option" where
  "process_change coerce change =
     (case get_prop change ''field'' of
        Inl e \<Rightarrow> Inl e
      | Inr f \<Rightarrow>
          if f \<noteq> JStr ''messages'' then Inr None
          else (case get_prop change ''value'' of
                  Inl e \<Rightarrow> Inl e
                | Inr v \<Rightarrow>
                   (case get_prop v ''messages'' of
                      Inl e \<Rightarrow> Inl e
                    | Inr msgs \<Rightarrow>
                       (case get_prop v ''statuses'' of
                          Inl e \<Rightarrow> Inl e
                        | Inr sts \<Rightarrow>
                            if \<not> truthy msgs then Inr None
                            else (case get_prop msgs ''length'' of
                                    Inl e \<Rightarrow> Inl e
                                  | Inr len \<Rightarrow>
                                      if \<not> gt_zero coerce len then Inr None
                                      else (case iterate msgs of
                                              Inl e \<Rightarrow> Inl e
                                            | Inr ms \<Rightarrow> process_messages ms))))))"

fun process_changes :: "(json \<Rightarrow> bool) \<Rightarrow> json list \<Rightarrow> js_error + webhook_result option" where
  "process_changes coerce [] = Inr None"
| "process_changes coerce (c # cs) =
     (case process_change coerce c of
        Inl e \<Rightarrow> Inl e
      | Inr (Some r) \<Rightarrow> Inr (Some r)
      | Inr None \<Rightarrow> process_changes coerce cs)"

definition processWebhookEntry_try :: "(json \<Rightarrow> bool) \<Rightarrow> json \<Rightarrow> js_error + webhook_result option" where
  "processWebhookEntry_try coerce entry =
     (case get_prop entry ''changes'' of
        Inl e \<Rightarrow> Inl e
      | Inr chs \<Rightarrow> (case iterate chs of Inl e \<Rightarrow> Inl e | Inr cs \<Rightarrow> process_changes coerce cs))"

text \<open>The \<open>catch\<close> block of \<open>processWebhookEntry\<close> logs \<open>entry.id\<close> and returns \<open>null\<close>.\<close>

definition processWebhookEntry :: "(json \<Rightarrow> bool) \<Rightarrow> json \<Rightarrow> js_error + webhook_result option" where
  "processWebhookEntry coerce entry =
     (case processWebhookEntry_try coerce entry of
        Inr r \<Rightarrow> Inr r
      | Inl e \<Rightarrow> (case get_prop entry ''id'' of Inl e' \<Rightarrow> Inl e' | Inr i \<Rightarrow> Inr None))"

fun process_entries :: "(json \<Rightarrow> bool) \<Rightarrow> json list \<Rightarrow> js_error + webhook_result option" where
  "process_entries coerce [] = Inr None"
| "process_entries coerce (e # es) =
     (case processWebhookEntry coerce e of
        Inl err \<Rightarrow> Inl err
      | Inr (Some r) \<Rightarrow> Inr (Some r)
      | Inr None \<Rightarrow> process_entries coerce es)"

definition processWebhookPayload_try :: "(json \<Rightarrow> bool) \<Rightarrow> json \<Rightarrow> js_error + webhook_result" where
  "processWebhookPayload_try coerce payload =
     (let validationResult = validateWebhookPayload payload in
      if \<not> vr_isValid validationResult
      then Inr \<lparr>wr_success = False, wr_eventType = None, wr_message = None,
                wr_error = vr_error validationResult, wr_shouldRespond = None\<rparr>
      else (case get_prop payload ''entry'' of
              Inl e \<Rightarrow> Inl e
            | Inr en \<Rightarrow>
               (case iterate en of
                  Inl e \<Rightarrow> Inl e
                | Inr es \<Rightarrow>
                   (case process_entries coerce es of
                      Inl e \<Rightarrow> Inl e
                    | Inr (Some r) \<Rightarrow> Inr r
                    | Inr None \<Rightarrow> Inr \<lparr>wr_success = True, wr_eventType = None, wr_message = None,
                                       wr_error = None, wr_shouldRespond = Some False\<rparr>))))"

text \<open>
  The \<open>catch\<close> block of \<open>processWebhookPayload\<close> logs
  \<open>JSON.stringify(payload).substring(0, 500)\<close>, which raises when the payload is
  \<open>undefined\<close>; otherwise it returns the failure with the exception's message.
  \<open>Inl\<close> is an exception that leaves \<open>processWebhookPayload\<close>.
\<close>

definition processWebhookPayload :: "(json \<Rightarrow> bool) \<Rightarrow> json \<Rightarrow> js_error + webhook_result" where
  "processWebhookPayload coerce payload =
     (case processWebhookPayload_try coerce payload of
        Inr r \<Rightarrow> Inr r
      | Inl e \<Rightarrow>
          if payload = JUndefined then Inl (TypeError ''undefined is not an object'')
          else Inr \<lparr>wr_success = False, wr_eventType = None, wr_message = None,
                 wr_error = Some (''Error procesando webhook: '' @ error_message e),
                 wr_shouldRespond = None\<rparr>)"

text \<open>
  Payloads of the declared type \<open>WhatsAppWebhookPayload\<close> whose messages are text
  messages, and their JSON values.
\<close>

record wa_text_message =
  tm_id :: string
  tm_from :: string
  tm_timestamp :: string
  tm_body :: string

record wa_change =
  ch_display_phone_number :: string
  ch_phone_number_id :: string
  ch_messages :: "wa_text_message list option"
  ch_statuses :: "json list option"

record wa_entry =
  en_id :: string
  en_changes :: "wa_change list"

definition enc_text_message :: "wa_text_message \<Rightarrow> json" where
  "enc_text_message m = JObj [(''from'', JStr (tm_from m)), (''id'', JStr (tm_id m)),
     (''timestamp'', JStr (tm_timestamp m)), (''text'', JObj [(''body'', JStr (tm_body m))]),
     (''type'', JStr ''text'')]"

definition enc_change :: "wa_change \<Rightarrow> json" where
  "enc_change c = JObj [
     (''value'', JObj ([(''messaging_product'', JStr ''whatsapp''),
        (''metadata'', JObj [(''display_phone_number'', JStr (ch_display_phone_number c)),
                            (''phone_number_id'', JStr (ch_phone_number_id c))])]
        @ (case ch_messages c of None \<Rightarrow> [] | Some ms \<Rightarrow> [(''messages'', JArr (map enc_text_message ms))])
        @ (case ch_statuses c of None \<Rightarrow> [] | Some ss \<Rightarrow> [(''statuses'', JArr ss)]))),
     (''field'', JStr ''messages'')]"

definition enc_entry :: "wa_entry \<Rightarrow> json" where
  "enc_entry e = JObj [(''id'', JStr (en_id e)), (''changes'', JArr (map enc_change (en_changes e)))]"

definition enc_payload :: "wa_entry list \<Rightarrow> json" where
  "enc_payload es = JObj [(''object'', JStr ''whatsapp_business_account''),
     (''entry'', JArr (map enc_entry es))]"

definition change_messages :: "wa_change \<Rightarrow> wa_text_message list" where
  "change_messages c = (case ch_messages c of None \<Rightarrow> [] | Some ms \<Rightarrow> ms)"

definition payload_messages :: "wa_entry list \<Rightarrow> wa_text_message list" where
  "payload_messages es = concat (map (\<lambda>e. concat (map change_messages (en_changes e))) es)"

text \<open>The value of a property, \<open>undefined\<close> where reading it would raise.\<close>

definition prop_of :: "json \<Rightarrow> string \<Rightarrow> json" where
  "prop_of v k = (case get_prop v k of Inl e \<Rightarrow> JUndefined | Inr x \<Rightarrow> x)"

section \<open>Conversation state (types/index.ts, AgentMemory)\<close>

datatype role = User | Assistant | System

text \<open>A \<open>Date\<close> is kept as its time in milliseconds.\<close>

record chat_message =
  cm_role :: role
  cm_content :: string
  cm_timestamp :: nat

record agent_state =
  as_messages :: "chat_message list"
  as_session_id :: string
  as_context :: "(string \<times> json) list"
  as_current_node :: "string option"

text \<open>\<open>{ ...obj, k: v }\<close> on the list of properties of an object.\<close>

definition set_prop :: "(string \<times> json) list \<Rightarrow> string \<Rightarrow> json \<Rightarrow> (string \<times> json) list" where
  "set_prop kvs k v =
     (case map_of kvs k of
        None \<Rightarrow> kvs @ [(k, v)]
      | Some old \<Rightarrow> map (\<lambda>(k', v'). if k' = k then (k', v) else (k', v')) kvs)"

definition ctx_get :: "(string \<times> json) list \<Rightarrow> string \<Rightarrow> json" where
  "ctx_get kvs k = (case map_of kvs k of None \<Rightarrow> JUndefined | Some v \<Rightarrow> v)"

definition createInitialAgentState :: "nat \<Rightarrow> string \<Rightarrow> string \<Rightarrow> agent_state" where
  "createInitialAgentState now sessionId userId =
     \<lparr>as_messages = [],
      as_session_id = sessionId,
      as_context = [(''user_id'', JStr userId), (''created_at'', JNum (of_nat now)),
                    (''conversation_type'', JStr ''whatsapp''), (''preferences'', JObj []),
                    (''metadata'', JObj [])],
      as_current_node = Some ''start''\<rparr>"

definition addMessageToState :: "nat \<Rightarrow> agent_state \<Rightarrow> role \<Rightarrow> string \<Rightarrow> agent_state" where
  "addMessageToState now agentState r content =
     agentState\<lparr>as_messages := as_messages agentState
        @ [\<lparr>cm_role = r, cm_content = content, cm_timestamp = now\<rparr>]\<rparr>"

section \<open>The database (schema.ts, client.ts)\<close>

text \<open>
  The tables of \<open>schema.ts\<close> as lists of rows, under the constraints the schema
  declares. Identifiers are strings. Three checks of the server are outside the model:
  the text form of a UUID (a text that is no row's id behaves as an id without a row);
  the truncation of a value that is longer than its \<open>VARCHAR\<close> column only by spaces
  (here every longer value raises \<open>22001\<close>); and the rejection of a text, or of a
  \<open>jsonb\<close> value, that contains the character U+0000 (here it is a text like any
  other).
\<close>

record user_row =
  u_id :: string
  u_wa_id :: string
  u_phone_number :: string
  u_profile_name :: "string option"
  u_created_at :: nat
  u_updated_at :: nat

record conversation_row =
  c_id :: string
  c_user_id :: string
  c_title :: "string option"
  c_created_at :: nat
  c_updated_at :: nat

datatype direction = Incoming | Outgoing

record message_row =
  m_id :: string
  m_conversation_id :: string
  m_direction :: direction
  m_message_type :: string
  m_content :: string
  m_whatsapp_message_id :: "string option"
  m_timestamp :: nat
  m_status :: "string option"
  m_created_at :: nat

record session_row =
  s_id :: string
  s_user_id :: string
  s_agent_state :: agent_state
  s_created_at :: nat
  s_updated_at :: nat
  s_expires_at :: "nat option"

text \<open>
  The state outside the running function: the database (whether the pool reaches the
  server, the number of queries sent through \<open>executeQuery\<close>, the four tables), the
  private map of \<open>MemoryTool\<close>, and the log of the collaborators that ran (the names of
  the tools executed and the prompts sent to the completion service).
\<close>

datatype call = ToolRun string | Completion string

record world =
  db_connected :: bool
  db_queries :: nat
  db_users :: "user_row list"
  db_conversations :: "conversation_row list"
  db_messages :: "message_row list"
  db_sessions :: "session_row list"
  tool_memory :: "(string \<times> json) list"
  calls :: "call list"

text \<open>
  \<open>executeQuery\<close>: the query is counted; it raises when the server is not reached or
  when the statement fails, and a failed statement changes no table.
\<close>

definition executeQuery :: "world \<Rightarrow> (world \<Rightarrow> js_error + 'a \<times> world) \<Rightarrow> (js_error + 'a) \<times> world" where
  "executeQuery w stmt =
     (let w1 = w\<lparr>db_queries := db_queries w + 1\<rparr> in
      if \<not> db_connected w then (Inl (PgError ''ECONNREFUSED''), w1)
      else (case stmt w1 of Inl e \<Rightarrow> (Inl e, w1) | Inr (r, w2) \<Rightarrow> (Inr r, w2)))"

definition too_long :: "nat \<Rightarrow> string option \<Rightarrow> bool" where
  "too_long n v = (case v of None \<Rightarrow> False | Some s \<Rightarrow> n < length s)"

text \<open>
  \<open>INSERT INTO users ... ON CONFLICT (wa_id) DO UPDATE SET phone_number =
  EXCLUDED.phone_number, profile_name = COALESCE(EXCLUDED.profile_name,
  users.profile_name), updated_at = NOW() RETURNING *\<close>, under the constraints of
  \<open>CREATE_USERS_TABLE\<close>. \<open>new_id\<close> is the value \<open>gen_random_uuid()\<close> draws.
\<close>

definition upsert_user_row :: "nat \<Rightarrow> string \<Rightarrow> string option \<Rightarrow> user_row \<Rightarrow> user_row" where
  "upsert_user_row now phone profileName u =
     u\<lparr>u_phone_number := phone,
       u_profile_name := (case profileName of None \<Rightarrow> u_profile_name u | Some p \<Rightarrow> Some p),
       u_updated_at := now\<rparr>"

definition sql_upsert_user ::
  "string \<Rightarrow> nat \<Rightarrow> string \<Rightarrow> string \<Rightarrow> string option \<Rightarrow> world \<Rightarrow> js_error + user_row list \<times> world" where
  "sql_upsert_user new_id now waId phone profileName w =
     (if 255 < length waId \<or> 20 < length phone \<or> too_long 255 profileName
      then Inl (PgError ''22001'')
      else if \<exists>u\<in>set (db_users w). u_wa_id u = waId
      then (let us = map (\<lambda>u. if u_wa_id u = waId then upsert_user_row now phone profileName u else u)
                       (db_users w)
            in Inr (filter (\<lambda>u. u_wa_id u = waId) us, w\<lparr>db_users := us\<rparr>))
      else if \<exists>u\<in>set (db_users w). u_id u = new_id
      then Inl (PgError ''23505'')
      else (let u = \<lparr>u_id = new_id, u_wa_id = waId, u_phone_number = phone,
                     u_profile_name = profileName, u_created_at = now, u_updated_at = now\<rparr>
            in Inr ([u], w\<lparr>db_users := db_users w @ [u]\<rparr>)))"

definition sql_select_user_by_wa_id :: "string \<Rightarrow> world \<Rightarrow> js_error + user_row list \<times> world" where
  "sql_select_user_by_wa_id waId w = Inr (filter (\<lambda>u. u_wa_id u = waId) (db_users w), w)"

text \<open>
  \<open>SELECT c.*, COUNT(m.id) ... WHERE c.user_id = $1 GROUP BY c.id ORDER BY c.updated_at
  DESC LIMIT $2\<close>. (The order among rows of equal \<open>updated_at\<close> is the server's choice.)
\<close>

definition sql_select_user_conversations ::
  "string \<Rightarrow> nat \<Rightarrow> world \<Rightarrow> js_error + conversation_row list \<times> world" where
  "sql_select_user_conversations userId limit w =
     Inr (take limit (rev (sort_key c_updated_at (filter (\<lambda>c. c_user_id c = userId) (db_conversations w)))), w)"

text \<open>\<open>INSERT INTO conversations (user_id, title) VALUES ($1, $2) RETURNING id\<close>\<close>

definition sql_insert_conversation ::
  "string \<Rightarrow> nat \<Rightarrow> string \<Rightarrow> string option \<Rightarrow> world \<Rightarrow> js_error + string \<times> world" where
  "sql_insert_conversation new_id now userId title w =
     (if too_long 500 title then Inl (PgError ''22001'')
      else if \<exists>c\<in>set (db_conversations w). c_id c = new_id then Inl (PgError ''23505'')
      else if \<not> (\<exists>u\<in>set (db_users w). u_id u = userId) then Inl (PgError ''23503'')
      else Inr (new_id, w\<lparr>db_conversations := db_conversations w
             @ [\<lparr>c_id = new_id, c_user_id = userId, c_title = title,
                 c_created_at = now, c_updated_at = now\<rparr>]\<rparr>))"

text \<open>\<open>UPDATE conversations SET updated_at = NOW() WHERE id = $1\<close>\<close>

definition sql_touch_conversation :: "nat \<Rightarrow> string \<Rightarrow> world \<Rightarrow> js_error + unit \<times> world" where
  "sql_touch_conversation now conversationId w =
     Inr ((), w\<lparr>db_conversations :=
        map (\<lambda>c. if c_id c = conversationId then c\<lparr>c_updated_at := now\<rparr> else c) (db_conversations w)\<rparr>)"

text \<open>
  \<open>INSERT INTO messages (conversation_id, direction, message_type, content,
  whatsapp_message_id, timestamp) VALUES (...) RETURNING id\<close>, under the constraints of
  \<open>CREATE_MESSAGES_TABLE\<close>: the lengths, the primary key, \<open>whatsapp_message_id ... UNIQUE\<close>
  (two rows without an id do not conflict) and the reference to the conversation.
\<close>

definition sql_insert_message ::
  "string \<Rightarrow> nat \<Rightarrow> string \<Rightarrow> direction \<Rightarrow> string \<Rightarrow> string \<Rightarrow> string option \<Rightarrow> nat
     \<Rightarrow> world \<Rightarrow> js_error + string \<times> world" where
  "sql_insert_message new_id now conversationId dir messageType content whatsappMessageId ts w =
     (if 20 < length messageType \<or> too_long 255 whatsappMessageId then Inl (PgError ''22001'')
      else if \<exists>m\<in>set (db_messages w). m_id m = new_id then Inl (PgError ''23505'')
      else if whatsappMessageId \<noteq> None
              \<and> (\<exists>m\<in>set (db_messages w). m_whatsapp_message_id m = whatsappMessageId)
      then Inl (PgError ''23505'')
      else if \<not> (\<exists>c\<in>set (db_conversations w). c_id c = conversationId) then Inl (PgError ''23503'')
      else Inr (new_id, w\<lparr>db_messages := db_messages w
             @ [\<lparr>m_id = new_id, m_conversation_id = conversationId, m_direction = dir,
                 m_message_type = messageType, m_content = content,
                 m_whatsapp_message_id = whatsappMessageId, m_timestamp = ts,
                 m_status = None, m_created_at = now\<rparr>]\<rparr>))"

text \<open>
  \<open>INSERT INTO sessions (user_id, agent_state, updated_at) VALUES ($1, $2::jsonb, NOW())
  ON CONFLICT (user_id) DO UPDATE SET agent_state = EXCLUDED.agent_state, updated_at =
  NOW() RETURNING id\<close>
\<close>

definition sql_upsert_session ::
  "string \<Rightarrow> nat \<Rightarrow> string \<Rightarrow> agent_state \<Rightarrow> world \<Rightarrow> js_error + string list \<times> world" where
  "sql_upsert_session new_id now userId st w =
     (if \<exists>s\<in>set (db_sessions w). s_user_id s = userId
      then Inr (map s_id (filter (\<lambda>s. s_user_id s = userId) (db_sessions w)),
                w\<lparr>db_sessions := map (\<lambda>s. if s_user_id s = userId
                       then s\<lparr>s_agent_state := st, s_updated_at := now\<rparr> else s) (db_sessions w)\<rparr>)
      else if \<exists>s\<in>set (db_sessions w). s_id s = new_id then Inl (PgError ''23505'')
      else if \<not> (\<exists>u\<in>set (db_users w). u_id u = userId) then Inl (PgError ''23503'')
      else Inr ([new_id], w\<lparr>db_sessions := db_sessions w
             @ [\<lparr>s_id = new_id, s_user_id = userId, s_agent_state = st, s_created_at = now,
                 s_updated_at = now, s_expires_at = None\<rparr>]\<rparr>))"

text \<open>
  \<open>SELECT agent_state FROM sessions WHERE user_id = $1 AND (expires_at IS NULL OR
  expires_at > NOW()) ORDER BY updated_at DESC LIMIT 1\<close>
\<close>

definition sql_select_session :: "nat \<Rightarrow> string \<Rightarrow> world \<Rightarrow> js_error + agent_state list \<times> world" where
  "sql_select_session now userId w =
     Inr (map s_agent_state (take 1 (rev (sort_key s_updated_at
            (filter (\<lambda>s. s_user_id s = userId
                \<and> (case s_expires_at s of None \<Rightarrow> True | Some t \<Rightarrow> now < t)) (db_sessions w))))), w)"

section \<open>The repositories (repositories.ts)\<close>

text \<open>
  Every function returns its result, or the exception it raises (\<open>Inl\<close>), and the world
  it leaves. The \<open>catch\<close> blocks of the repositories log and raise the exception again.
\<close>

definition UserRepository_upsertUser ::
  "world \<Rightarrow> string \<Rightarrow> nat \<Rightarrow> string \<Rightarrow> string \<Rightarrow> string option \<Rightarrow> (js_error + user_row option) \<times> world" where
  "UserRepository_upsertUser w new_id now waId phoneNumber profileName =
     (case executeQuery w (sql_upsert_user new_id now waId phoneNumber profileName) of
        (Inl e, w') \<Rightarrow> (Inl e, w')
      | (Inr rows, w') \<Rightarrow> (Inr (case rows of [] \<Rightarrow> None | u # us \<Rightarrow> Some u), w'))"

definition UserRepository_getUserByWaId :: "world \<Rightarrow> string \<Rightarrow> (js_error + user_row option) \<times> world" where
  "UserRepository_getUserByWaId w waId =
     (case executeQuery w (sql_select_user_by_wa_id waId) of
        (Inl e, w') \<Rightarrow> (Inl e, w')
      | (Inr rows, w') \<Rightarrow> (Inr (case rows of [] \<Rightarrow> None | u # us \<Rightarrow> Some u), w'))"

definition ConversationRepository_createConversation ::
  "world \<Rightarrow> string \<Rightarrow> nat \<Rightarrow> string \<Rightarrow> string option \<Rightarrow> (js_error + string) \<times> world" where
  "ConversationRepository_createConversation w new_id now userId title =
     executeQuery w (sql_insert_conversation new_id now userId title)"

definition ConversationRepository_getUserConversations ::
  "world \<Rightarrow> string \<Rightarrow> nat \<Rightarrow> (js_error + conversation_row list) \<times> world" where
  "ConversationRepository_getUserConversations w userId limit =
     executeQuery w (sql_select_user_conversations userId limit)"

definition ConversationRepository_updateConversationTimestamp ::
  "world \<Rightarrow> nat \<Rightarrow> string \<Rightarrow> (js_error + unit) \<times> world" where
  "ConversationRepository_updateConversationTimestamp w now conversationId =
     executeQuery w (sql_touch_conversation now conversationId)"

text \<open>The helper \<open>getOrCreateConversation\<close> at the end of \<open>repositories.ts\<close>.\<close>

definition repo_getOrCreateConversation ::
  "world \<Rightarrow> string \<Rightarrow> nat \<Rightarrow> string \<Rightarrow> string option \<Rightarrow> (js_error + string) \<times> world" where
  "repo_getOrCreateConversation w new_id now userId title =
     (case ConversationRepository_getUserConversations w userId 1 of
        (Inl e, w') \<Rightarrow> (Inl e, w')
      | (Inr [], w') \<Rightarrow> ConversationRepository_createConversation w' new_id now userId title
      | (Inr (c # cs), w') \<Rightarrow> (Inr (c_id c), w'))"

text \<open>
  \<open>MessageRepository.saveMessage\<close>. The check of the required data, the \<open>INSERT\<close> and the
  update of the conversation's timestamp run inside one \<open>try\<close> whose \<open>catch\<close> logs the
  exception and raises it again.
\<close>

definition MessageRepository_saveMessage ::
  "world \<Rightarrow> string \<Rightarrow> nat \<Rightarrow> string \<Rightarrow> direction \<Rightarrow> string \<Rightarrow> string \<Rightarrow> string option \<Rightarrow> nat option
     \<Rightarrow> (js_error + string) \<times> world" where
  "MessageRepository_saveMessage w new_id now conversationId dir messageType content whatsappMessageId ts =
     (if conversationId = [] \<or> messageType = [] \<or> content = []
      then (Inl (Error ''Datos requeridos faltantes para guardar mensaje''), w)
      else (let messageTimestamp = (case ts of None \<Rightarrow> now | Some t \<Rightarrow> t) in
            case executeQuery w (sql_insert_message new_id now conversationId dir messageType content
                    whatsappMessageId messageTimestamp) of
              (Inl e, w') \<Rightarrow> (Inl e, w')
            | (Inr messageId, w') \<Rightarrow>
                (case ConversationRepository_updateConversationTimestamp w' now conversationId of
                   (Inl e, w'') \<Rightarrow> (Inl e, w'')
                 | (Inr u, w'') \<Rightarrow> (Inr messageId, w''))))"

text \<open>
  The copy of the state that \<open>SessionRepository.saveAgentState\<close> serialises: the entries
  of the context whose value is \<open>undefined\<close> are left out. (The other values the filter
  drops, functions, symbols, \<open>NaN\<close>, the infinities and big integers, are no values of
  \<^typ>\<open>json\<close>.)
\<close>

definition safeAgentState :: "agent_state \<Rightarrow> agent_state" where
  "safeAgentState agentState =
     agentState\<lparr>as_context := filter (\<lambda>(k, v). v \<noteq> JUndefined) (as_context agentState)\<rparr>"

definition SessionRepository_saveAgentState ::
  "world \<Rightarrow> string \<Rightarrow> nat \<Rightarrow> string \<Rightarrow> agent_state \<Rightarrow> (js_error + string) \<times> world" where
  "SessionRepository_saveAgentState w new_id now userId agentState =
     (if userId = [] \<or> trim userId = []
      then (Inl (ValidationError (''userId es requerido y no puede estar vac'' @ [i_acute] @ ''o'')), w)
      else if trim (as_session_id agentState) = []
      then (Inl (ValidationError (''AgentState.session_id debe ser un string no vac'' @ [i_acute] @ ''o'')), w)
      else (case executeQuery w (sql_upsert_session new_id now userId (safeAgentState agentState)) of
              (Inl e, w') \<Rightarrow> (Inl e, w')
            | (Inr [], w') \<Rightarrow> (Inl (TypeError ''Cannot read properties of undefined (reading id)''), w')
            | (Inr (sessionId # r), w') \<Rightarrow> (Inr sessionId, w')))"

definition SessionRepository_getAgentState ::
  "world \<Rightarrow> nat \<Rightarrow> string \<Rightarrow> (js_error + agent_state option) \<times> world" where
  "SessionRepository_getAgentState w now userId =
     (case executeQuery w (sql_select_session now userId) of
        (Inl e, w') \<Rightarrow> (Inl e, w')
      | (Inr [], w') \<Rightarrow> (Inr None, w')
      | (Inr (st # r), w') \<Rightarrow> (Inr (Some st), w'))"

section \<open>AgentMemory (agents/memory.ts)\<close>

text \<open>Decimal digits of a number, for the template strings.\<close>

function show_nat :: "nat \<Rightarrow> string" where
  "show_nat n = (if n < 10 then [char_of (48 + n)] else show_nat (n div 10) @ [char_of (48 + n mod 10)])"
  by pat_completeness auto
termination
  by (relation "measure (\<lambda>n. n)") auto

declare show_nat.simps [simp del]

definition show_int :: "int \<Rightarrow> string" where
  "show_int i = (if i < 0 then CHR ''-'' # show_nat (nat (- i)) else show_nat (nat i))"

text \<open>
  The functions of \<open>AgentMemory\<close> take the flag \<open>isDatabaseAvailable\<close> as their first
  argument.
\<close>

definition AgentMemory_saveAgentState ::
  "bool \<Rightarrow> world \<Rightarrow> string \<Rightarrow> nat \<Rightarrow> string \<Rightarrow> agent_state \<Rightarrow> (js_error + unit) \<times> world" where
  "AgentMemory_saveAgentState isDatabaseAvailable w new_id now userId agentState =
     (if \<not> isDatabaseAvailable then (Inr (), w)
      else (case SessionRepository_saveAgentState w new_id now userId agentState of
              (Inl e, w') \<Rightarrow> (Inl e, w')
            | (Inr sessionId, w') \<Rightarrow> (Inr (), w')))"

definition AgentMemory_loadAgentState ::
  "bool \<Rightarrow> world \<Rightarrow> nat \<Rightarrow> string \<Rightarrow> (js_error + agent_state option) \<times> world" where
  "AgentMemory_loadAgentState isDatabaseAvailable w now userId =
     (if \<not> isDatabaseAvailable then (Inr None, w)
      else SessionRepository_getAgentState w now userId)"

definition AgentMemory_getOrCreateConversation ::
  "bool \<Rightarrow> world \<Rightarrow> string \<Rightarrow> nat \<Rightarrow> string \<Rightarrow> string option \<Rightarrow> (js_error + string) \<times> world" where
  "AgentMemory_getOrCreateConversation isDatabaseAvailable w new_id now userId title =
     (if \<not> isDatabaseAvailable then (Inr (''mem_'' @ userId @ ''_'' @ show_nat now), w)
      else repo_getOrCreateConversation w new_id now userId title)"

definition AgentMemory_saveMessage ::
  "bool \<Rightarrow> world \<Rightarrow> string \<Rightarrow> nat \<Rightarrow> string \<Rightarrow> direction \<Rightarrow> string \<Rightarrow> string \<Rightarrow> string option
     \<Rightarrow> nat option \<Rightarrow> (js_error + string) \<times> world" where
  "AgentMemory_saveMessage isDatabaseAvailable w new_id now conversationId dir messageType content
       whatsappMessageId ts =
     (if \<not> isDatabaseAvailable then (Inr (''msg_'' @ conversationId @ ''_'' @ show_nat now), w)
      else MessageRepository_saveMessage w new_id now conversationId dir messageType content
             whatsappMessageId ts)"

text \<open>The rows stored under a provider message id, and the profile name stored for a user.\<close>

definition rows_with_wa_id :: "world \<Rightarrow> string \<Rightarrow> message_row list" where
  "rows_with_wa_id w wamid = filter (\<lambda>m. m_whatsapp_message_id m = Some wamid) (db_messages w)"

definition stored_profile_names :: "world \<Rightarrow> string \<Rightarrow> string option list" where
  "stored_profile_names w waId = map u_profile_name (filter (\<lambda>u. u_wa_id u = waId) (db_users w))"

section \<open>The tools (agents/tools.ts)\<close>

definition dquote :: char where "dquote = CHR 0x22"

text \<open>
  What the run takes from outside: the clock (\<open>Date.now()\<close>, \<open>new Date()\<close> and the
  server's \<open>NOW()\<close>), the formatted local time, the draw of \<open>Math.random()\<close>, whether an
  API key is configured, the completion model (\<open>None\<close>: the call raises), the identifiers
  that \<open>gen_random_uuid()\<close> draws for the rows of a turn, and three functions of the
  engine: the value of \<open>new Function('return ' + s)()\<close> for a text \<open>s\<close> outside the
  integer expressions evaluated below (\<open>None\<close>: no finite number), and the texts of
  \<open>String(v)\<close> and \<open>JSON.stringify(v)\<close> for a value \<open>v\<close> that is not a string.
\<close>

datatype js_number = IntNum int | OtherNum string

record env =
  e_now :: nat
  e_locale_time :: string
  e_random :: nat
  e_openai_key :: bool
  e_model_invoke :: "string \<Rightarrow> string option"
  e_uuid_user :: string
  e_uuid_conversation :: string
  e_uuid_session :: string
  e_uuid_incoming :: string
  e_uuid_outgoing :: string
  e_js_eval :: "string \<Rightarrow> js_number option"
  e_to_string :: "json \<Rightarrow> string"
  e_stringify :: "json \<Rightarrow> string"

text \<open>
  A tool: \<open>execute(input)\<close> returns a text or raises, and may change the private memory
  of the registry.
\<close>

record agent_tool =
  tool_name :: string
  tool_description :: string
  tool_execute :: "json \<Rightarrow> env \<Rightarrow> (string \<times> json) list \<Rightarrow> (js_error + string) \<times> (string \<times> json) list"

definition is_string :: "json \<Rightarrow> bool" where
  "is_string v = (case v of JStr s \<Rightarrow> True | _ \<Rightarrow> False)"

definition template_text :: "env \<Rightarrow> json \<Rightarrow> string" where
  "template_text env v = (case v of JStr s \<Rightarrow> s | _ \<Rightarrow> e_to_string env v)"

subsection \<open>TimeTool\<close>

definition TimeTool_execute ::
  "json \<Rightarrow> env \<Rightarrow> (string \<times> json) list \<Rightarrow> (js_error + string) \<times> (string \<times> json) list" where
  "TimeTool_execute input env mem = (Inr (''La hora actual es: '' @ e_locale_time env), mem)"

definition TimeTool :: agent_tool where
  "TimeTool = \<lparr>tool_name = ''get_current_time'',
     tool_description = ''Obtiene la hora y fecha actual en formato legible'',
     tool_execute = TimeTool_execute\<rparr>"

subsection \<open>WebSearchTool\<close>

definition search_responses :: "(string \<times> string) list" where
  "search_responses =
     [(''clima'', (''El clima actual en Bogot'' @ [a_acute] @ '' es de 18'' @ [degree_sign] @ ''C con cielo parcialmente nublado.'')),
      (''noticias'', (''Las principales noticias del d'' @ [i_acute] @ ''a incluyen avances en tecnolog'' @ [i_acute] @ ''a y econom'' @ [i_acute] @ ''a.'')),
      (''tiempo'', (''El pron'' @ [o_acute] @ ''stico del tiempo para hoy indica condiciones estables.'')),
      (''ayuda'', (''Estoy aqu'' @ [i_acute] @ '' para ayudarte. '' @ [inv_quest] @ ''En qu'' @ [e_acute] @ '' puedo asistirte?'')),
      (''saludo'', ([inv_excl] @ ''Hola! '' @ [inv_quest] @ ''C'' @ [o_acute] @ ''mo puedo ayudarte hoy?''))]"

fun first_response :: "string \<Rightarrow> (string \<times> string) list \<Rightarrow> string option" where
  "first_response lowerQuery [] = None"
| "first_response lowerQuery ((key, response) # rest) =
     (if str_includes lowerQuery key then Some response else first_response lowerQuery rest)"

definition WebSearchTool_execute ::
  "json \<Rightarrow> env \<Rightarrow> (string \<times> json) list \<Rightarrow> (js_error + string) \<times> (string \<times> json) list" where
  "WebSearchTool_execute input env mem =
     (case get_prop input ''query'' of
        Inl e \<Rightarrow> (Inr (''Lo siento, no pude realizar la b'' @ [u_acute] @ ''squeda en este momento.''), mem)
      | Inr q \<Rightarrow>
         (case q of
            JStr query \<Rightarrow>
              if query = [] then (Inr (''Por favor, proporciona un t'' @ [e_acute] @ ''rmino de b'' @ [u_acute] @ ''squeda v'' @ [a_acute] @ ''lido.''), mem)
              else (case first_response (toLowerCase query) search_responses of
                      Some response \<Rightarrow> (Inr response, mem)
                    | None \<Rightarrow> (Inr ((''He realizado una b'' @ [u_acute] @ ''squeda sobre '' @ [dquote]) @ query
                         @ ([dquote] @ ''. Encontr'' @ [e_acute] @ '' informaci'' @ [o_acute] @ ''n relevante que podr'' @ [i_acute] @ ''a ser '' @ [u_acute] @ ''til para tu consulta. '' @ [inv_quest] @ ''Te gustar'' @ [i_acute] @ ''a que profundice en alg'' @ [u_acute] @ ''n aspecto espec'' @ [i_acute] @ ''fico?'')), mem))
          | _ \<Rightarrow> (Inr (''Por favor, proporciona un t'' @ [e_acute] @ ''rmino de b'' @ [u_acute] @ ''squeda v'' @ [a_acute] @ ''lido.''), mem)))"

definition WebSearchTool :: agent_tool where
  "WebSearchTool = \<lparr>tool_name = ''web_search'',
     tool_description = (''Realiza una b'' @ [u_acute] @ ''squeda b'' @ [a_acute] @ ''sica en la web sobre un tema espec'' @ [i_acute] @ ''fico''),
     tool_execute = WebSearchTool_execute\<rparr>"

subsection \<open>CalculatorTool\<close>

definition is_digit :: "char \<Rightarrow> bool" where
  "is_digit c = (48 \<le> (of_char c :: nat) \<and> (of_char c :: nat) \<le> 57)"

text \<open>\<open>/^[0-9+\-*/().\s]+$/.test(expression)\<close>\<close>

definition allowed_char :: "char \<Rightarrow> bool" where
  "allowed_char c = (is_digit c \<or> c = CHR ''+'' \<or> c = CHR ''-'' \<or> c = CHR ''*'' \<or> c = CHR ''/''
     \<or> c = CHR ''('' \<or> c = CHR '')'' \<or> c = CHR ''.'' \<or> isSpace c)"

definition allowedChars :: "string \<Rightarrow> bool" where
  "allowedChars s = (s \<noteq> [] \<and> list_all allowed_char s)"

text \<open>
  The integer expressions: decimal literals without a leading zero, the operators
  \<open>+ - * /\<close> (binary, and \<open>+ -\<close> as signs) and parentheses, read with the precedence of
  the language; a text with a \<open>.\<close>, with one of the pairs \<open>**\<close>, \<open>//\<close>, \<open>/*\<close>, \<open>++\<close>, \<open>--\<close>
  or a literal with a leading zero is not one of them. Such an expression is evaluated
  here when every literal and every intermediate value is an integer of magnitude at
  most \<open>2^53\<close> and every division is exact: there the arithmetic of doubles is the
  arithmetic of integers. Everything else is left to \<open>e_js_eval\<close>.
\<close>

datatype tok = TNum nat | TPlus | TMinus | TStar | TSlash | TLParen | TRParen

definition op_tok :: "char \<Rightarrow> tok option" where
  "op_tok c = (if c = CHR ''+'' then Some TPlus else if c = CHR ''-'' then Some TMinus
     else if c = CHR ''*'' then Some TStar else if c = CHR ''/'' then Some TSlash
     else if c = CHR ''('' then Some TLParen else if c = CHR '')'' then Some TRParen else None)"

definition literal_value :: "string \<Rightarrow> nat option" where
  "literal_value ds =
     (if ds = [] \<or> (hd ds = CHR ''0'' \<and> tl ds \<noteq> []) then None
      else Some (foldl (\<lambda>v c. 10 * v + ((of_char c :: nat) - 48)) 0 ds))"

fun lex :: "string \<Rightarrow> string \<Rightarrow> tok list option" where
  "lex acc [] = (if acc = [] then Some [] else map_option (\<lambda>n. [TNum n]) (literal_value acc))"
| "lex acc (c # cs) =
     (if is_digit c then lex (acc @ [c]) cs
      else (case op_tok c of
              None \<Rightarrow> None
            | Some t \<Rightarrow>
               (case lex [] cs of
                  None \<Rightarrow> None
                | Some ts \<Rightarrow>
                    if acc = [] then Some (t # ts)
                    else map_option (\<lambda>n. TNum n # t # ts) (literal_value acc))))"

definition has_compound :: "string \<Rightarrow> bool" where
  "has_compound s = (str_includes s ''**'' \<or> str_includes s ''//'' \<or> str_includes s ''/*''
     \<or> str_includes s ''++'' \<or> str_includes s ''--'')"

definition exact53 :: "int \<Rightarrow> int option" where
  "exact53 v = (if \<bar>v\<bar> \<le> 9007199254740992 then Some v else None)"

text \<open>
  The parser. The first argument bounds the depth of the recursion; \<open>None\<close> is "not
  evaluated here".
\<close>

fun arith_sum :: "nat \<Rightarrow> tok list \<Rightarrow> (int \<times> tok list) option"
  and arith_sum_rest :: "nat \<Rightarrow> int \<Rightarrow> tok list \<Rightarrow> (int \<times> tok list) option"
  and arith_prod :: "nat \<Rightarrow> tok list \<Rightarrow> (int \<times> tok list) option"
  and arith_prod_rest :: "nat \<Rightarrow> int \<Rightarrow> tok list \<Rightarrow> (int \<times> tok list) option"
  and arith_unary :: "nat \<Rightarrow> tok list \<Rightarrow> (int \<times> tok list) option" where
  "arith_sum 0 ts = None"
| "arith_sum (Suc n) ts =
     (case arith_prod n ts of None \<Rightarrow> None | Some (v, r) \<Rightarrow> arith_sum_rest n v r)"
| "arith_sum_rest 0 a ts = None"
| "arith_sum_rest (Suc n) a ts =
     (case ts of
        TPlus # r \<Rightarrow>
          (case arith_prod n r of
             None \<Rightarrow> None
           | Some (v, r') \<Rightarrow> (case exact53 (a + v) of None \<Rightarrow> None | Some s \<Rightarrow> arith_sum_rest n s r'))
      | TMinus # r \<Rightarrow>
          (case arith_prod n r of
             None \<Rightarrow> None
           | Some (v, r') \<Rightarrow> (case exact53 (a - v) of None \<Rightarrow> None | Some s \<Rightarrow> arith_sum_rest n s r'))
      | _ \<Rightarrow> Some (a, ts))"
| "arith_prod 0 ts = None"
| "arith_prod (Suc n) ts =
     (case arith_unary n ts of None \<Rightarrow> None | Some (v, r) \<Rightarrow> arith_prod_rest n v r)"
| "arith_prod_rest 0 a ts = None"
| "arith_prod_rest (Suc n) a ts =
     (case ts of
        TStar # r \<Rightarrow>
          (case arith_unary n r of
             None \<Rightarrow> None
           | Some (v, r') \<Rightarrow> (case exact53 (a * v) of None \<Rightarrow> None | Some s \<Rightarrow> arith_prod_rest n s r'))
      | TSlash # r \<Rightarrow>
          (case arith_unary n r of
             None \<Rightarrow> None
           | Some (v, r') \<Rightarrow> if v = 0 \<or> \<not> v dvd a then None else arith_prod_rest n (a div v) r')
      | _ \<Rightarrow> Some (a, ts))"
| "arith_unary 0 ts = None"
| "arith_unary (Suc n) ts =
     (case ts of
        TNum k # r \<Rightarrow> map_option (\<lambda>v. (v, r)) (exact53 (int k))
      | TMinus # r \<Rightarrow> (case arith_unary n r of None \<Rightarrow> None | Some (v, r') \<Rightarrow> Some (- v, r'))
      | TPlus # r \<Rightarrow> arith_unary n r
      | TLParen # r \<Rightarrow> (case arith_sum n r of Some (v, TRParen # r') \<Rightarrow> Some (v, r') | _ \<Rightarrow> None)
      | _ \<Rightarrow> None)"

definition arith_eval :: "string \<Rightarrow> int option" where
  "arith_eval s =
     (if has_compound s then None
      else (case lex [] s of
              None \<Rightarrow> None
            | Some ts \<Rightarrow> (case arith_sum (4 * length ts + 4) ts of Some (v, []) \<Rightarrow> Some v | _ \<Rightarrow> None)))"

text \<open>
  \<open>safeEval\<close>: the white space is removed, the text is evaluated, and the result is
  returned when it is a finite number (\<open>None\<close> is \<open>null\<close>).
\<close>

definition safeEval :: "env \<Rightarrow> string \<Rightarrow> js_number option" where
  "safeEval env expression =
     (let sanitized = filter (\<lambda>c. \<not> isSpace c) expression in
      case arith_eval sanitized of Some v \<Rightarrow> Some (IntNum v) | None \<Rightarrow> e_js_eval env sanitized)"

definition number_text :: "js_number \<Rightarrow> string" where
  "number_text r = (case r of IntNum i \<Rightarrow> show_int i | OtherNum s \<Rightarrow> s)"

definition CalculatorTool_execute ::
  "json \<Rightarrow> env \<Rightarrow> (string \<times> json) list \<Rightarrow> (js_error + string) \<times> (string \<times> json) list" where
  "CalculatorTool_execute input env mem =
     (case get_prop input ''expression'' of
        Inl e \<Rightarrow> (Inr (''Lo siento, no pude realizar el c'' @ [a_acute] @ ''lculo.''), mem)
      | Inr ex \<Rightarrow>
         (case ex of
            JStr expression \<Rightarrow>
              if expression = [] then (Inr (''Por favor, proporciona una expresi'' @ [o_acute] @ ''n matem'' @ [a_acute] @ ''tica v'' @ [a_acute] @ ''lida.''), mem)
              else if \<not> allowedChars expression
              then (Inr (''La expresi'' @ [o_acute] @ ''n contiene caracteres no permitidos. Solo se permiten n'' @ [u_acute] @ ''meros y operadores b'' @ [a_acute] @ ''sicos (+, -, *, /, .).''), mem)
              else (case safeEval env expression of
                      None \<Rightarrow> (Inr (''No pude calcular esa expresi'' @ [o_acute] @ ''n. Verifica que est'' @ [e_acute] @ '' correctamente escrita.''), mem)
                    | Some result \<Rightarrow>
                        (Inr (''El resultado de '' @ expression @ '' es: '' @ number_text result), mem))
          | _ \<Rightarrow> (Inr (''Por favor, proporciona una expresi'' @ [o_acute] @ ''n matem'' @ [a_acute] @ ''tica v'' @ [a_acute] @ ''lida.''), mem)))"

definition CalculatorTool :: agent_tool where
  "CalculatorTool = \<lparr>tool_name = ''calculator'',
     tool_description = (''Realiza operaciones matem'' @ [a_acute] @ ''ticas b'' @ [a_acute] @ ''sicas (suma, resta, multiplicaci'' @ [o_acute] @ ''n, divisi'' @ [o_acute] @ ''n)''),
     tool_execute = CalculatorTool_execute\<rparr>"

subsection \<open>MemoryTool\<close>

text \<open>\<open>JSON.stringify\<close> of a string: the text in quotes, with the escapes of JSON.\<close>

definition hex_digit :: "nat \<Rightarrow> char" where
  "hex_digit n = (if n < 10 then char_of (48 + n) else char_of (87 + n))"

definition quote_char :: "char \<Rightarrow> string" where
  "quote_char c =
     (if c = CHR 0x22 then [CHR 0x5C, CHR 0x22]
      else if c = CHR 0x5C then [CHR 0x5C, CHR 0x5C]
      else if c = CHR 0x08 then [CHR 0x5C, CHR ''b'']
      else if c = CHR 0x0C then [CHR 0x5C, CHR ''f'']
      else if c = CHR 0x0A then [CHR 0x5C, CHR ''n'']
      else if c = CHR 0x0D then [CHR 0x5C, CHR ''r'']
      else if c = CHR 0x09 then [CHR 0x5C, CHR ''t'']
      else if (of_char c :: nat) < 32
      then [CHR 0x5C, CHR ''u'', CHR ''0'', CHR ''0'', hex_digit ((of_char c :: nat) div 16),
            hex_digit ((of_char c :: nat) mod 16)]
      else [c])"

definition stringify_text :: "env \<Rightarrow> json \<Rightarrow> string" where
  "stringify_text env v =
     (case v of JStr s \<Rightarrow> [dquote] @ concat (map quote_char s) @ [dquote] | _ \<Rightarrow> e_stringify env v)"

definition MemoryTool_execute ::
  "json \<Rightarrow> env \<Rightarrow> (string \<times> json) list \<Rightarrow> (js_error + string) \<times> (string \<times> json) list" where
  "MemoryTool_execute input env mem =
     (case get_prop input ''key'' of
        Inl e \<Rightarrow> (Inr (''Lo siento, no pude guardar esa informaci'' @ [o_acute] @ ''n.''), mem)
      | Inr key \<Rightarrow>
         (let v = prop_of input ''value''; userId = prop_of input ''userId'' in
          if \<not> truthy key \<or> \<not> truthy userId
          then (Inr (''Se requiere una clave y ID de usuario para guardar informaci'' @ [o_acute] @ ''n.''), mem)
          else (Inr ((''He guardado '' @ [dquote]) @ template_text env key @ ([dquote] @ '': '') @ stringify_text env v
                  @ '' para recordar en futuras conversaciones.''),
                set_prop mem (template_text env userId @ ''_'' @ template_text env key)
                  (JObj [(''value'', v), (''timestamp'', JNum (of_nat (e_now env))), (''userId'', userId)]))))"

definition MemoryTool :: agent_tool where
  "MemoryTool = \<lparr>tool_name = ''remember_info'',
     tool_description = (''Guarda informaci'' @ [o_acute] @ ''n importante sobre el usuario para recordar en futuras conversaciones''),
     tool_execute = MemoryTool_execute\<rparr>"

subsection \<open>CourtesyTool\<close>

definition courtesy_responses :: "(string \<times> string list) list" where
  "courtesy_responses =
     [(''greeting'', [([inv_excl] @ ''Hola! '' @ [inv_quest] @ ''En qu'' @ [e_acute] @ '' puedo ayudarte hoy?''), ([inv_excl] @ ''Buen d'' @ [i_acute] @ ''a! '' @ [inv_quest] @ ''C'' @ [o_acute] @ ''mo est'' @ [a_acute] @ ''s?''),
                      ([inv_excl] @ ''Hola! Estoy aqu'' @ [i_acute] @ '' para asistirte.'')]),
      (''thanks'', [([inv_excl] @ ''De nada! '' @ [inv_quest] @ ''Hay algo m'' @ [a_acute] @ ''s en lo que pueda ayudarte?''), ''Es un placer ayudarte.'',
                    ([inv_excl] @ ''Con gusto! '' @ [inv_quest] @ ''Necesitas algo m'' @ [a_acute] @ ''s?'')]),
      (''goodbye'', [([inv_excl] @ ''Hasta luego! Que tengas un excelente d'' @ [i_acute] @ ''a.''), ([inv_excl] @ ''Adi'' @ [o_acute] @ ''s! Nos vemos pronto.''),
                     ([inv_excl] @ ''Hasta la pr'' @ [o_acute] @ ''xima! Cu'' @ [i_acute] @ ''date.'')]),
      (''apology'', [''Disculpa si no pude ayudarte como esperabas.'', ''Lamento cualquier inconveniente.'',
                     (''Perd'' @ [o_acute] @ ''n, intentar'' @ [e_acute] @ '' mejorar mi respuesta.'')]),
      (''help'', [(''Estoy aqu'' @ [i_acute] @ '' para ayudarte. '' @ [inv_quest] @ ''Qu'' @ [e_acute] @ '' necesitas?''), ([inv_quest] @ ''En qu'' @ [e_acute] @ '' puedo asistirte hoy?''),
                  (''Cu'' @ [e_acute] @ ''ntame, '' @ [inv_quest] @ ''c'' @ [o_acute] @ ''mo puedo ayudarte?'')])]"

text \<open>
  \<open>responses[type]\<close> for a \<open>type\<close> that is one of the five keys; a value that is no key
  of the object is answered with the default text (a name the object inherits from
  \<open>Object.prototype\<close>, which \<open>extractToolInput\<close> never produces, is treated as no key).
  \<open>Math.floor(Math.random() * typeResponses.length)\<close> is an index below the length.
\<close>

definition CourtesyTool_execute ::
  "json \<Rightarrow> env \<Rightarrow> (string \<times> json) list \<Rightarrow> (js_error + string) \<times> (string \<times> json) list" where
  "CourtesyTool_execute input env mem =
     (case get_prop input ''type'' of
        Inl e \<Rightarrow> (Inr ([inv_quest] @ ''En qu'' @ [e_acute] @ '' puedo ayudarte?''), mem)
      | Inr ty \<Rightarrow>
         (case ty of
            JStr t \<Rightarrow>
              (case map_of courtesy_responses t of
                 None \<Rightarrow> (Inr ([inv_quest] @ ''En qu'' @ [e_acute] @ '' puedo ayudarte?''), mem)
               | Some typeResponses \<Rightarrow>
                   (Inr (typeResponses ! (e_random env mod length typeResponses)), mem))
          | _ \<Rightarrow> (Inr ([inv_quest] @ ''En qu'' @ [e_acute] @ '' puedo ayudarte?''), mem)))"

definition CourtesyTool :: agent_tool where
  "CourtesyTool = \<lparr>tool_name = ''courtesy_response'',
     tool_description = (''Genera respuestas de cortes'' @ [i_acute] @ ''a apropiadas para diferentes situaciones''),
     tool_execute = CourtesyTool_execute\<rparr>"

subsection \<open>The registry\<close>

definition AVAILABLE_TOOLS :: "agent_tool list" where
  "AVAILABLE_TOOLS = [TimeTool, WebSearchTool, CalculatorTool, MemoryTool, CourtesyTool]"

definition getToolByName :: "agent_tool list \<Rightarrow> string \<Rightarrow> agent_tool option" where
  "getToolByName tools name = find (\<lambda>tool. tool_name tool = name) tools"

section \<open>The completion service (services/openaiService.ts)\<close>

definition getFallbackResponse :: "string \<Rightarrow> string" where
  "getFallbackResponse prompt =
     (let lowerPrompt = toLowerCase prompt in
      if str_includes lowerPrompt ''hola'' \<or> str_includes lowerPrompt ''hello''
      then ([inv_excl] @ ''Hola! '' @ [inv_quest] @ ''En qu'' @ [e_acute] @ '' puedo ayudarte hoy?'')
      else if str_includes lowerPrompt ''ayuda'' \<or> str_includes lowerPrompt ''help''
      then (''Estoy aqu'' @ [i_acute] @ '' para ayudarte. '' @ [inv_quest] @ ''Qu'' @ [e_acute] @ '' necesitas?'')
      else if str_includes lowerPrompt ''gracias'' \<or> str_includes lowerPrompt ''thank''
      then ([inv_excl] @ ''De nada! '' @ [inv_quest] @ ''Hay algo m'' @ [a_acute] @ ''s en lo que pueda asistirte?'')
      else (''Lo siento, no pude procesar tu mensaje correctamente. '' @ [inv_quest] @ ''Puedes intentarlo de nuevo?''))"

text \<open>
  \<open>OpenAIService.generateResponse\<close>: the content the model returns, or the fallback text
  when the call raises.
\<close>

definition OpenAIService_generateResponse :: "env \<Rightarrow> string \<Rightarrow> string" where
  "OpenAIService_generateResponse env prompt =
     (case e_model_invoke env prompt of Some content \<Rightarrow> content | None \<Rightarrow> getFallbackResponse prompt)"

section \<open>The agent (agents/whatsappAgent.ts)\<close>

definition END :: string where "END = ''__end__''"

definition adios :: string where "adios = (''adi'' @ [o_acute] @ ''s'')"

definition mapContentToCourtesyType :: "string \<Rightarrow> string" where
  "mapContentToCourtesyType content =
     (let lowerContent = toLowerCase content in
      if str_includes lowerContent ''hola'' \<or> str_includes lowerContent ''buenos'' then ''greeting''
      else if str_includes lowerContent ''gracias'' then ''thanks''
      else if str_includes lowerContent adios \<or> str_includes lowerContent ''chau'' then ''goodbye''
      else if str_includes lowerContent ''disculpa'' then ''apology''
      else if str_includes lowerContent ''ayuda'' then ''help''
      else ''help'')"

definition extractToolInput :: "string \<Rightarrow> string \<Rightarrow> json \<Rightarrow> json" where
  "extractToolInput content toolName userId =
     (if toolName = ''web_search''
      then JObj [(''query'', JStr (trim (replace_prefix_ci [''busca'', ''buscar'', ''investiga''] content)))]
      else if toolName = ''calculator''
      then JObj [(''expression'', JStr (trim (replace_prefix_ci [''calcula'', ''calcular''] content)))]
      else if toolName = ''remember_info''
      then JObj [(''key'', JStr ''info''), (''value'', JStr content), (''userId'', userId)]
      else if toolName = ''courtesy_response''
      then JObj [(''type'', JStr (mapContentToCourtesyType content))]
      else JObj [])"

text \<open>The table \<open>toolPatterns\<close> of \<open>analyzeIntent\<close>, in the order of its declaration.\<close>

definition toolPatterns :: "(string \<times> string list) list" where
  "toolPatterns =
     [(''get_current_time'', [''hora'', ''tiempo'', ''fecha'']),
      (''web_search'', [''buscar'', ''busca'', ''investigar'', ''noticias'']),
      (''calculator'', [''calcular'', ''suma'', ''resta'', ''multiplica'', ''divide'', ''+'', ''-'', ''*'', ''/'']),
      (''remember_info'', [''recuerda'', ''guarda'', ''memoria'']),
      (''courtesy_response'', [''hola'', ''gracias'', adios, ''ayuda'', ''disculpa''])]"

text \<open>The table \<open>toolPatterns\<close> of \<open>processMessageWithLogic\<close>.\<close>

definition toolPatterns_logic :: "(string \<times> string list) list" where
  "toolPatterns_logic =
     [(''get_current_time'', [''hora'', ''tiempo'', ''fecha'']),
      (''web_search'', [''buscar'', ''busca'', ''investigar'', ''noticias'']),
      (''calculator'', [''calcular'', ''suma'', ''resta'', ''multiplica'', ''divide'', ''+'', ''-'', ''*'', ''/'']),
      (''courtesy_response'', [''hola'', ''gracias'', adios, ''ayuda'', ''disculpa''])]"

definition apology_tool :: string where
  "apology_tool = ''Lo siento, tuve un problema al procesar tu solicitud.''"

definition apology_tool_logic :: string where
  "apology_tool_logic = ''Lo siento, tuve un problema al procesar tu solicitud con esa herramienta.''"

definition apology_internal :: string where
  "apology_internal = (''Lo siento, ocurri'' @ [o_acute] @ '' un error interno. Por favor, intenta de nuevo.'')"

definition apology_turn :: string where
  "apology_turn = (''Lo siento, ocurri'' @ [o_acute] @ '' un error al procesar tu mensaje.'')"

definition generic_reply :: string where
  "generic_reply = (''Entiendo tu mensaje. '' @ [inv_quest] @ ''En qu'' @ [e_acute] @ '' m'' @ [a_acute] @ ''s puedo ayudarte?'')"

definition not_understood :: string where
  "not_understood = (''No te entiendo. '' @ [inv_quest] @ ''Puedes intentar de nuevo?'')"

definition static_reply :: "string \<Rightarrow> string" where
  "static_reply content =
     (if str_includes content ''hola'' \<or> str_includes content ''buenos''
      then ([inv_excl] @ ''Hola! '' @ [inv_quest] @ ''C'' @ [o_acute] @ ''mo est'' @ [a_acute] @ ''s? Estoy aqu'' @ [i_acute] @ '' para ayudarte.'')
      else if str_includes content ''gracias''
      then ([inv_excl] @ ''De nada! '' @ [inv_quest] @ ''Hay algo m'' @ [a_acute] @ ''s en lo que pueda asistirte?'')
      else if str_includes content adios \<or> str_includes content ''chau''
      then ([inv_excl] @ ''Hasta luego! Que tengas un excelente d'' @ [i_acute] @ ''a.'')
      else generic_reply)"

subsection \<open>The nodes of the graph\<close>

definition processInput :: "env \<Rightarrow> agent_state \<Rightarrow> agent_state" where
  "processInput env state =
     (if as_messages state = [] \<or> cm_role (last (as_messages state)) \<noteq> User
      then state\<lparr>as_current_node := Some ''error''\<rparr>
      else state\<lparr>as_messages := as_messages state
               @ [\<lparr>cm_role = System,
                   cm_content = (''Eres un asistente conversacional '' @ [u_acute] @ ''til para WhatsApp. Usa las herramientas disponibles cuando sea necesario.''),
                   cm_timestamp = e_now env\<rparr>],
             as_current_node := Some ''analyze''\<rparr>)"

text \<open>The first mapping of the table one of whose patterns the content includes.\<close>

fun first_match :: "string \<Rightarrow> (string \<times> string list) list \<Rightarrow> string option" where
  "first_match content [] = None"
| "first_match content ((toolName, patterns) # rest) =
     (if some_includes content patterns then Some toolName else first_match content rest)"

definition analyzeIntent :: "agent_state \<Rightarrow> agent_state" where
  "analyzeIntent state =
     (case filter (\<lambda>m. cm_role m = User) (as_messages state) of
        [] \<Rightarrow> state\<lparr>as_current_node := Some ''respond''\<rparr>
      | m # ms \<Rightarrow>
         (let content = toLowerCase (cm_content (last (m # ms))) in
          case first_match content toolPatterns of
            Some toolName \<Rightarrow>
              state\<lparr>as_context := set_prop (set_prop (as_context state) ''selected_tool'' (JStr toolName))
                       ''tool_input''
                       (extractToolInput content toolName (ctx_get (as_context state) ''user_id'')),
                    as_current_node := Some ''use_tool''\<rparr>
          | None \<Rightarrow> state\<lparr>as_current_node := Some ''respond''\<rparr>))"


definition generateResponse :: "env \<Rightarrow> world \<Rightarrow> agent_state \<Rightarrow> agent_state \<times> world" where
  "generateResponse env w state =
     (let userContent = (case filter (\<lambda>m. cm_role m = User) (as_messages state) of
                           [] \<Rightarrow> [] | m # ms \<Rightarrow> cm_content (last (m # ms)));
          reply = (\<lambda>response. state\<lparr>as_messages := as_messages state
                     @ [\<lparr>cm_role = Assistant, cm_content = response, cm_timestamp = e_now env\<rparr>],
                   as_current_node := Some ''finalize''\<rparr>) in
      if \<not> e_openai_key env then (reply (static_reply (toLowerCase userContent)), w)
      else (let aiResponse = OpenAIService_generateResponse env userContent in
            (reply (if aiResponse = [] then generic_reply else aiResponse),
             w\<lparr>calls := calls w @ [Completion userContent]\<rparr>)))"

text \<open>
  \<open>finalizeResponse\<close> saves the state under \<open>state.context.user_id\<close>; when saving raises,
  the node after is \<open>error\<close>.
\<close>

definition finalizeResponse :: "bool \<Rightarrow> env \<Rightarrow> world \<Rightarrow> agent_state \<Rightarrow> agent_state \<times> world" where
  "finalizeResponse isDatabaseAvailable env w state =
     (if \<not> isDatabaseAvailable then (state\<lparr>as_current_node := Some END\<rparr>, w)
      else (case ctx_get (as_context state) ''user_id'' of
              JStr userId \<Rightarrow>
                (case AgentMemory_saveAgentState isDatabaseAvailable w (e_uuid_session env) (e_now env)
                        userId state of
                   (Inl e, w') \<Rightarrow> (state\<lparr>as_current_node := Some ''error''\<rparr>, w')
                 | (Inr u, w') \<Rightarrow> (state\<lparr>as_current_node := Some END\<rparr>, w'))
            | other \<Rightarrow> (state\<lparr>as_current_node := Some ''error''\<rparr>, w)))"

definition handleError :: "env \<Rightarrow> agent_state \<Rightarrow> agent_state" where
  "handleError env state =
     state\<lparr>as_messages := as_messages state
              @ [\<lparr>cm_role = Assistant, cm_content = apology_internal, cm_timestamp = e_now env\<rparr>],
           as_current_node := Some END\<rparr>"

subsection \<open>WhatsAppAgent.processMessageWithLogic\<close>

text \<open>
  The loop over the table: at the first mapping with a matching pattern whose tool is
  in the registry the tool runs and its text, or the apology when it raises, is
  returned (\<open>Some\<close>); \<open>None\<close> when the loop ends without a tool.
\<close>

fun run_patterns ::
  "agent_tool list \<Rightarrow> env \<Rightarrow> world \<Rightarrow> agent_state \<Rightarrow> string \<Rightarrow> (string \<times> string list) list
     \<Rightarrow> string option \<times> world" where
  "run_patterns tools env w agentState content [] = (None, w)"
| "run_patterns tools env w agentState content ((toolName, patterns) # rest) =
     (if some_includes content patterns
      then (case getToolByName tools toolName of
              None \<Rightarrow> run_patterns tools env w agentState content rest
            | Some tool \<Rightarrow>
               (case tool_execute tool
                       (extractToolInput content toolName (ctx_get (as_context agentState) ''user_id''))
                       env (tool_memory w) of
                  (Inr result, mem) \<Rightarrow>
                    (Some result, w\<lparr>tool_memory := mem, calls := calls w @ [ToolRun toolName]\<rparr>)
                | (Inl e, mem) \<Rightarrow>
                    (Some apology_tool_logic, w\<lparr>tool_memory := mem, calls := calls w @ [ToolRun toolName]\<rparr>)))
      else run_patterns tools env w agentState content rest)"

text \<open>
  \<open>getOpenAIService()\<close> raises when no API key is configured; the \<open>catch\<close> then answers
  with a static reply.
\<close>

definition processMessageWithLogic ::
  "agent_tool list \<Rightarrow> env \<Rightarrow> world \<Rightarrow> agent_state \<Rightarrow> string \<Rightarrow> string \<times> world" where
  "processMessageWithLogic tools env w agentState messageContent =
     (let content = toLowerCase messageContent in
      case run_patterns tools env w agentState content toolPatterns_logic of
        (Some result, w') \<Rightarrow> (result, w')
      | (None, w') \<Rightarrow>
          if \<not> e_openai_key env then (static_reply content, w')
          else (let aiResponse = OpenAIService_generateResponse env messageContent in
                (if aiResponse = [] then generic_reply else aiResponse,
                 w'\<lparr>calls := calls w' @ [Completion messageContent]\<rparr>)))"

subsection \<open>WhatsAppAgent.processTextMessage\<close>

text \<open>
  The first part of \<open>processTextMessage\<close>: the check of the arguments, the user (looked
  up, or created), the state (loaded, or created for the user's conversation) and the
  user's turn appended to it. \<open>Inl\<close> is the exception that ends in the outer \<open>catch\<close>.
\<close>

definition turn_setup ::
  "bool \<Rightarrow> env \<Rightarrow> world \<Rightarrow> string \<Rightarrow> string \<Rightarrow> string option
     \<Rightarrow> (js_error + string \<times> agent_state) \<times> world" where
  "turn_setup isDatabaseAvailable env w waId messageContent profileName =
     (if waId = [] \<or> trim waId = []
      then (Inl (Error (''waId es requerido y debe ser una cadena no vac'' @ [i_acute] @ ''a'')), w)
      else if messageContent = [] \<or> trim messageContent = []
      then (Inl (Error (''messageContent es requerido y debe ser una cadena no vac'' @ [i_acute] @ ''a'')), w)
      else (case UserRepository_getUserByWaId w waId of
              (Inl e, w1) \<Rightarrow> (Inl e, w1)
            | (Inr found, w1) \<Rightarrow>
               (case (case found of
                        Some u \<Rightarrow> (Inr (Some u), w1)
                      | None \<Rightarrow> UserRepository_upsertUser w1 (e_uuid_user env) (e_now env) waId waId
                                  profileName) of
                  (Inl e, w2) \<Rightarrow> (Inl e, w2)
                | (Inr None, w2) \<Rightarrow> (Inl (TypeError ''Cannot read properties of undefined (reading id)''), w2)
                | (Inr (Some user), w2) \<Rightarrow>
                   (let userId = u_id user in
                    case AgentMemory_loadAgentState isDatabaseAvailable w2 (e_now env) userId of
                      (Inl e, w3) \<Rightarrow> (Inl e, w3)
                    | (Inr (Some agentState), w3) \<Rightarrow>
                        (Inr (userId, addMessageToState (e_now env) agentState User messageContent), w3)
                    | (Inr None, w3) \<Rightarrow>
                       (case AgentMemory_getOrCreateConversation isDatabaseAvailable w3
                               (e_uuid_conversation env) (e_now env) userId (Some ''WhatsApp Conversation'') of
                          (Inl e, w4) \<Rightarrow> (Inl e, w4)
                        | (Inr conversationId, w4) \<Rightarrow>
                            (Inr (userId, addMessageToState (e_now env)
                                    (createInitialAgentState (e_now env) conversationId userId)
                                    User messageContent), w4))))))"

text \<open>
  The last part: the state and the two messages are saved, each inside its own \<open>try\<close>
  whose \<open>catch\<close> logs the exception and goes on.
\<close>

definition persist_turn ::
  "bool \<Rightarrow> env \<Rightarrow> world \<Rightarrow> string \<Rightarrow> agent_state \<Rightarrow> string \<Rightarrow> string option \<Rightarrow> string \<Rightarrow> world" where
  "persist_turn isDatabaseAvailable env w userId agentState messageContent waMessageId response =
     (let w1 = snd (AgentMemory_saveAgentState isDatabaseAvailable w (e_uuid_session env) (e_now env)
                      userId agentState);
          w2 = snd (AgentMemory_saveMessage isDatabaseAvailable w1 (e_uuid_incoming env) (e_now env)
                      (as_session_id agentState) Incoming ''text'' messageContent waMessageId None);
          w3 = snd (AgentMemory_saveMessage isDatabaseAvailable w2 (e_uuid_outgoing env) (e_now env)
                      (as_session_id agentState) Outgoing ''text'' response None None)
      in w3)"

text \<open>
  The result of a turn: the text returned, the value of the local variable
  \<open>agentState\<close> when the function returns (\<open>None\<close> when it was never assigned), and the
  world left.
\<close>

record turn_result =
  tr_response :: string
  tr_state :: "agent_state option"
  tr_world :: world

definition processTextMessage ::
  "agent_tool list \<Rightarrow> bool \<Rightarrow> env \<Rightarrow> world \<Rightarrow> string \<Rightarrow> string \<Rightarrow> string option \<Rightarrow> string option
     \<Rightarrow> turn_result" where
  "processTextMessage tools isDatabaseAvailable env w waId messageContent waMessageId profileName =
     (case turn_setup isDatabaseAvailable env w waId messageContent profileName of
        (Inl e, w1) \<Rightarrow> \<lparr>tr_response = apology_turn, tr_state = None, tr_world = w1\<rparr>
      | (Inr (userId, agentState), w1) \<Rightarrow>
          if str_includes (toLowerCase messageContent) ''ping''
          then \<lparr>tr_response = ''pong'', tr_state = Some agentState, tr_world = w1\<rparr>
          else (case processMessageWithLogic tools env w1 agentState messageContent of
                  (r, w2) \<Rightarrow>
                    (let response = (if r = [] then not_understood else r);
                         agentState' = addMessageToState (e_now env) agentState Assistant response
                     in \<lparr>tr_response = response, tr_state = Some agentState',
                         tr_world = persist_turn isDatabaseAvailable env w2 userId agentState'
                                      messageContent waMessageId response\<rparr>)))"

section \<open>Example data\<close>

text \<open>
  What a turn leaves untouched when it persists nothing and runs no collaborator: the
  log of calls, the memory of the tools, the stored sessions and the stored messages.
\<close>

definition untouched :: "world \<Rightarrow> world \<Rightarrow> bool" where
  "untouched w w' = (calls w' = calls w \<and> tool_memory w' = tool_memory w
     \<and> db_sessions w' = db_sessions w \<and> db_messages w' = db_messages w)"


text \<open>An environment, a user and a world for the concrete runs.\<close>

definition example_env :: env where
  "example_env = \<lparr>e_now = 1700000000000, e_locale_time = ''3 de noviembre de 2026, 10:15:00'',
     e_random = 0, e_openai_key = False, e_model_invoke = (\<lambda>prompt. None),
     e_uuid_user = ''u2'', e_uuid_conversation = ''c2'', e_uuid_session = ''s2'',
     e_uuid_incoming = ''m2'', e_uuid_outgoing = ''m3'',
     e_js_eval = (\<lambda>s. None), e_to_string = (\<lambda>v. ''undefined''), e_stringify = (\<lambda>v. ''null'')\<rparr>"

definition example_world :: world where
  "example_world = \<lparr>db_connected = True, db_queries = 0,
     db_users = [\<lparr>u_id = ''u1'', u_wa_id = ''573001112233'', u_phone_number = ''573001112233'',
                  u_profile_name = Some ''Ana'', u_created_at = 100, u_updated_at = 100\<rparr>],
     db_conversations = [\<lparr>c_id = ''c1'', c_user_id = ''u1'', c_title = Some ''WhatsApp Conversation'',
                  c_created_at = 100, c_updated_at = 100\<rparr>],
     db_messages = [], db_sessions = [], tool_memory = [], calls = []\<rparr>"

definition example_state :: "string \<Rightarrow> agent_state" where
  "example_state content =
     addMessageToState 1700000000000 (createInitialAgentState 1700000000000 ''c1'' ''u1'') User content"


text \<open>
  When saving a state for a user can succeed: the server is reached, the user id and
  the session id of the state are not blank, the user's row exists, and the user has a
  session row or the id drawn for a new row is free. And what it means that a state is
  stored for a user.
\<close>

definition can_persist :: "world \<Rightarrow> env \<Rightarrow> string \<Rightarrow> agent_state \<Rightarrow> bool" where
  "can_persist w env userId agentState =
     (db_connected w \<and> trim userId \<noteq> [] \<and> trim (as_session_id agentState) \<noteq> []
      \<and> (\<exists>u\<in>set (db_users w). u_id u = userId)
      \<and> ((\<exists>s\<in>set (db_sessions w). s_user_id s = userId)
          \<or> \<not> (\<exists>s\<in>set (db_sessions w). s_id s = e_uuid_session env)))"

definition persisted :: "world \<Rightarrow> string \<Rightarrow> agent_state \<Rightarrow> bool" where
  "persisted w userId agentState =
     (\<exists>s\<in>set (db_sessions w). s_user_id s = userId \<and> s_agent_state s = safeAgentState agentState)"

section \<open>Theorems\<close>

text \<open>
  C3. A handshake with mode \<open>subscribe\<close>, the configured token and a non-empty challenge
  is answered with exactly the challenge; when one of the three conditions fails the
  answer is the rejection \<open>null\<close>. The route maps the rejection to status 403 and the
  challenge to status 200, and never answers 500.
\<close>

theorem verifyWebhook_handshake:
  "(mode = ''subscribe'' \<and> token = verifyToken \<and> challenge \<noteq> []
      \<longrightarrow> verifyWebhook verifyToken mode token challenge = Some challenge)
   \<and> (\<not> (mode = ''subscribe'' \<and> token = verifyToken \<and> challenge \<noteq> [])
      \<longrightarrow> verifyWebhook verifyToken mode token challenge = None)
   \<and> (verifyWebhook verifyToken (query_or_empty q ''hub.mode'')
         (query_or_empty q ''hub.verify_token'') (query_or_empty q ''hub.challenge'') = None
      \<longrightarrow> hr_status (webhook_get verifyToken q) = 403)
   \<and> (\<forall>c. verifyWebhook verifyToken (query_or_empty q ''hub.mode'')
         (query_or_empty q ''hub.verify_token'') (query_or_empty q ''hub.challenge'') = Some c
      \<longrightarrow> webhook_get verifyToken q = \<lparr>hr_status = 200, hr_body = BodyText c\<rparr>)
   \<and> hr_status (webhook_get verifyToken q) \<noteq> 500"
  by (auto simp: verifyWebhook_def webhook_get_def Let_def split: option.splits)

theorem verifyWebhook_handshake_witness:
  "verifyWebhook ''s3cret'' ''subscribe'' ''s3cret'' ''1158201444'' = Some ''1158201444''
   \<and> verifyWebhook ''s3cret'' ''subscribe'' ''wrong'' ''1158201444'' = None
   \<and> verifyWebhook ''s3cret'' ''unsubscribe'' ''s3cret'' ''1158201444'' = None
   \<and> verifyWebhook ''s3cret'' ''subscribe'' ''s3cret'' [] = None
   \<and> hr_status (webhook_get ''s3cret'' (map_of [(''hub.mode'', ''subscribe''),
        (''hub.verify_token'', ''wrong''), (''hub.challenge'', ''1158201444'')])) = 403
   \<and> webhook_get ''s3cret'' (map_of [(''hub.mode'', ''subscribe''),
        (''hub.verify_token'', ''s3cret''), (''hub.challenge'', ''1158201444'')])
      = \<lparr>hr_status = 200, hr_body = BodyText ''1158201444''\<rparr>"
  using verifyWebhook_handshake [of "''subscribe''" "''s3cret''" "''s3cret''" "''1158201444''"
      "map_of [(''hub.mode'', ''subscribe''), (''hub.verify_token'', ''s3cret''), (''hub.challenge'', ''1158201444'')]"]
    verifyWebhook_handshake [of "''subscribe''" "''wrong''" "''s3cret''" "''1158201444''"
      "map_of [(''hub.mode'', ''subscribe''), (''hub.verify_token'', ''wrong''), (''hub.challenge'', ''1158201444'')]"]
    verifyWebhook_handshake [of "''unsubscribe''" "''s3cret''" "''s3cret''" "''1158201444''" "Map.empty"]
    verifyWebhook_handshake [of "''subscribe''" "''s3cret''" "''s3cret''" "[]" "Map.empty"]
  by (simp add: query_or_empty_def verifyWebhook_def)

subsection \<open>Webhook payloads\<close>

lemma get_prop_Inl_iff: "(\<exists>e. get_prop v k = Inl e) \<longleftrightarrow> nullish v"
  by (cases v) (auto simp: nullish_def)

lemma get_prop_Inl_nullish: "get_prop v k = Inl e \<Longrightarrow> nullish v"
  using get_prop_Inl_iff by blast

lemma get_prop_not_nullish: "\<not> nullish v \<Longrightarrow> \<exists>x. get_prop v k = Inr x"
  by (cases v) (auto simp: nullish_def)

lemma processIncomingMessage_Inl: "processIncomingMessage m = Inl e \<Longrightarrow> nullish m"
  by (auto simp: processIncomingMessage_def split: sum.splits dest: get_prop_Inl_nullish)

lemma processWebhookEntry_Inl: "processWebhookEntry coerce en = Inl e \<Longrightarrow> nullish en"
  by (auto simp: processWebhookEntry_def split: sum.splits dest: get_prop_Inl_nullish)

lemma validate_entry_ok: "validate_entry en = Inr None \<Longrightarrow> \<not> nullish en"
  by (cases en) (auto simp: validate_entry_def nullish_def)

lemma validate_entries_ok: "validate_entries es = Inr None \<Longrightarrow> en \<in> set es \<Longrightarrow> \<not> nullish en"
  by (induction es) (auto split: sum.splits option.splits dest: validate_entry_ok)

lemma process_entries_Inl:
  "process_entries coerce es = Inl e \<Longrightarrow> \<exists>en\<in>set es. nullish en"
  by (induction es) (auto split: sum.splits option.splits dest: processWebhookEntry_Inl)

lemma validate_valid_entries:
  "vr_isValid (validateWebhookPayload payload) \<Longrightarrow>
     \<exists>es. get_prop payload ''entry'' = Inr (JArr es) \<and> validate_entries es = Inr None"
  by (auto simp: validateWebhookPayload_def validateWebhookPayload_try_def isArray_def iterate_def
      split: sum.splits option.splits if_splits json.splits)

lemma processWebhookPayload_try_Inr: "\<exists>r. processWebhookPayload_try coerce payload = Inr r"
proof (cases "vr_isValid (validateWebhookPayload payload)")
  case False
  then show ?thesis by (simp add: processWebhookPayload_try_def)
next
  case True
  then obtain es where es: "get_prop payload ''entry'' = Inr (JArr es)" "validate_entries es = Inr None"
    using validate_valid_entries by blast
  have "\<not> (\<exists>e. process_entries coerce es = Inl e)"
    using process_entries_Inl validate_entries_ok [OF es(2)] by blast
  then show ?thesis
    using True es(1)
    by (cases "process_entries coerce es")
       (auto simp: processWebhookPayload_try_def iterate_def split: option.splits)
qed

lemma validate_invalid_error:
  "\<not> vr_isValid (validateWebhookPayload payload) \<Longrightarrow> \<exists>err. vr_error (validateWebhookPayload payload) = Some err"
  by (auto simp: validateWebhookPayload_def split: sum.splits option.splits)

lemma validate_rejects:
  "prop_of payload ''object'' \<noteq> JStr ''whatsapp_business_account''
     \<or> \<not> isArray (prop_of payload ''entry'') \<or> prop_of payload ''entry'' = JArr []
   \<Longrightarrow> \<not> vr_isValid (validateWebhookPayload payload)"
  by (cases payload)
     (auto simp: validateWebhookPayload_def validateWebhookPayload_try_def prop_of_def typeof_object_def
      split: sum.splits option.splits)

text \<open>
  C4. A payload whose \<open>object\<close> is not \<open>whatsapp_business_account\<close>, or whose \<open>entry\<close> is
  missing, not an array or empty, is answered with \<open>success = false\<close> and an error text;
  and \<open>processWebhookPayload\<close> returns a result (raises no exception) on every payload.
\<close>

theorem processWebhookPayload_rejects:
  "(prop_of payload ''object'' \<noteq> JStr ''whatsapp_business_account''
     \<or> \<not> isArray (prop_of payload ''entry'') \<or> prop_of payload ''entry'' = JArr []
     \<longrightarrow> (\<exists>err. processWebhookPayload coerce payload =
           Inr \<lparr>wr_success = False, wr_eventType = None, wr_message = None,
                wr_error = Some err, wr_shouldRespond = None\<rparr>))
   \<and> (\<exists>r. processWebhookPayload coerce payload = Inr r)"
proof (intro conjI impI)
  assume bad: "prop_of payload ''object'' \<noteq> JStr ''whatsapp_business_account''
     \<or> \<not> isArray (prop_of payload ''entry'') \<or> prop_of payload ''entry'' = JArr []"
  then have inv: "\<not> vr_isValid (validateWebhookPayload payload)" by (rule validate_rejects)
  then obtain err where "vr_error (validateWebhookPayload payload) = Some err"
    using validate_invalid_error by blast
  with inv show "\<exists>err. processWebhookPayload coerce payload =
           Inr \<lparr>wr_success = False, wr_eventType = None, wr_message = None,
                wr_error = Some err, wr_shouldRespond = None\<rparr>"
    by (simp add: processWebhookPayload_def processWebhookPayload_try_def)
next
  show "\<exists>r. processWebhookPayload coerce payload = Inr r"
    using processWebhookPayload_try_Inr [of coerce payload]
    by (auto simp: processWebhookPayload_def)
qed

theorem processWebhookPayload_rejects_witness:
  "processWebhookPayload (\<lambda>v. False) (JObj [(''object'', JStr ''page''), (''entry'', JArr [])]) =
     Inr \<lparr>wr_success = False, wr_eventType = None, wr_message = None,
          wr_error = Some ''Object debe ser whatsapp_business_account'', wr_shouldRespond = None\<rparr>"
  using processWebhookPayload_rejects [where coerce = "\<lambda>v. False"
      and payload = "JObj [(''object'', JStr ''page''), (''entry'', JArr [])]"]
  by (simp add: processWebhookPayload_def processWebhookPayload_try_def validateWebhookPayload_def
      validateWebhookPayload_try_def typeof_object_def isArray_def)

lemma blank_message_ignored:
  "trim (tm_body m) = [] \<Longrightarrow> processIncomingMessage (enc_text_message m) = Inr None"
  by (simp add: processIncomingMessage_def processIncomingMessage_try_def enc_text_message_def
      isProcessableMessage_def text_body_trim_def nullish_def Let_def)

lemma blank_messages_ignored:
  "\<forall>m\<in>set ms. trim (tm_body m) = [] \<Longrightarrow> process_messages (map enc_text_message ms) = Inr None"
  by (induction ms) (simp_all add: blank_message_ignored)

lemma blank_change_ignored:
  "\<forall>m\<in>set (change_messages c). trim (tm_body m) = [] \<Longrightarrow> process_change coerce (enc_change c) = Inr None"
  by (cases "ch_messages c"; cases "ch_statuses c")
     (simp_all add: process_change_def enc_change_def change_messages_def gt_zero_def iterate_def
        blank_messages_ignored)

lemma blank_changes_ignored:
  "\<forall>m\<in>set (concat (map change_messages cs)). trim (tm_body m) = []
     \<Longrightarrow> process_changes coerce (map enc_change cs) = Inr None"
  by (induction cs) (simp_all add: blank_change_ignored)

lemma blank_entry_ignored:
  "\<forall>m\<in>set (concat (map change_messages (en_changes e))). trim (tm_body m) = []
     \<Longrightarrow> processWebhookEntry coerce (enc_entry e) = Inr None"
  by (simp add: processWebhookEntry_def processWebhookEntry_try_def enc_entry_def iterate_def
      blank_changes_ignored)

lemma blank_entries_ignored:
  "\<forall>m\<in>set (payload_messages es). trim (tm_body m) = []
     \<Longrightarrow> process_entries coerce (map enc_entry es) = Inr None"
  by (induction es) (simp_all add: payload_messages_def blank_entry_ignored)

lemma enc_change_valid: "validate_change (enc_change c) = Inr None"
  by (simp add: validate_change_def enc_change_def)

lemma enc_changes_valid: "validate_changes (map enc_change cs) = Inr None"
  by (induction cs) (simp_all add: enc_change_valid)

lemma enc_entry_valid: "en_id e \<noteq> [] \<Longrightarrow> validate_entry (enc_entry e) = Inr None"
  by (simp add: validate_entry_def enc_entry_def isArray_def iterate_def enc_changes_valid)

lemma enc_entries_valid: "\<forall>e\<in>set es. en_id e \<noteq> [] \<Longrightarrow> validate_entries (map enc_entry es) = Inr None"
  by (induction es) (simp_all add: enc_entry_valid)

lemma enc_payload_valid:
  "es \<noteq> [] \<Longrightarrow> \<forall>e\<in>set es. en_id e \<noteq> [] \<Longrightarrow> validateWebhookPayload (enc_payload es) = \<lparr>vr_isValid = True, vr_error = None\<rparr>"
  by (simp add: validateWebhookPayload_def validateWebhookPayload_try_def enc_payload_def
      typeof_object_def isArray_def iterate_def enc_entries_valid)

text \<open>
  C5. A structurally valid payload (at least one entry, every entry with an id) all of
  whose messages are text messages with an empty or whitespace-only body (so also one
  whose only message is such a message) is answered with \<open>success = true\<close>, no message
  and \<open>shouldRespond = false\<close>.
\<close>

theorem blank_text_not_processed:
  assumes "es \<noteq> []" and "\<forall>e\<in>set es. en_id e \<noteq> []"
    and "\<forall>m\<in>set (payload_messages es). trim (tm_body m) = []"
  shows "processWebhookPayload coerce (enc_payload es) =
     Inr \<lparr>wr_success = True, wr_eventType = None, wr_message = None, wr_error = None,
          wr_shouldRespond = Some False\<rparr>"
proof -
  have "processWebhookPayload_try coerce (enc_payload es) =
     Inr \<lparr>wr_success = True, wr_eventType = None, wr_message = None, wr_error = None,
          wr_shouldRespond = Some False\<rparr>"
    using enc_payload_valid [OF assms(1,2)] blank_entries_ignored [OF assms(3), of coerce]
    by (simp add: processWebhookPayload_try_def iterate_def enc_payload_def)
  then show ?thesis by (simp add: processWebhookPayload_def)
qed

theorem blank_text_not_processed_witness:
  "processWebhookPayload (\<lambda>v. False) (enc_payload [\<lparr>en_id = ''102290129340398'', en_changes =
        [\<lparr>ch_display_phone_number = ''15550783881'', ch_phone_number_id = ''106540352242922'',
          ch_messages = Some [\<lparr>tm_id = ''wamid.A1'', tm_from = ''573001112233'',
             tm_timestamp = ''1700000000'', tm_body = ''  ''\<rparr>],
          ch_statuses = None\<rparr>]\<rparr>]) =
     Inr \<lparr>wr_success = True, wr_eventType = None, wr_message = None, wr_error = None,
          wr_shouldRespond = Some False\<rparr>"
  by (rule blank_text_not_processed)
     (simp_all add: payload_messages_def change_messages_def trim_def isSpace_def)

subsection \<open>Repositories and memory\<close>

lemma executeQuery_cases:
  "executeQuery w stmt = (r, w') \<Longrightarrow>
     (\<not> db_connected w \<and> r = Inl (PgError ''ECONNREFUSED'') \<and> w' = w\<lparr>db_queries := db_queries w + 1\<rparr>)
   \<or> (db_connected w \<and> (\<exists>e. stmt (w\<lparr>db_queries := db_queries w + 1\<rparr>) = Inl e \<and> r = Inl e
          \<and> w' = w\<lparr>db_queries := db_queries w + 1\<rparr>))
   \<or> (db_connected w \<and> (\<exists>x. stmt (w\<lparr>db_queries := db_queries w + 1\<rparr>) = Inr (x, w') \<and> r = Inr x))"
  by (auto simp: executeQuery_def Let_def split: sum.splits if_splits prod.splits)

lemma names_after_update:
  "map u_profile_name (filter (\<lambda>u. u_wa_id u = waId)
          (map (\<lambda>u. if u_wa_id u = waId then upsert_user_row now phone None u else u) us))
        = map u_profile_name (filter (\<lambda>u. u_wa_id u = waId) us)"
  by (induction us) (auto simp: upsert_user_row_def)

lemma upsert_stmt_keeps_names:
  "sql_upsert_user new_id now waId phone None w = Inr (rows, w') \<Longrightarrow>
   filter (\<lambda>u. u_wa_id u = waId) (db_users w) \<noteq> [] \<Longrightarrow>
   stored_profile_names w' waId = stored_profile_names w waId"
  by (auto simp: sql_upsert_user_def stored_profile_names_def Let_def names_after_update
      filter_empty_conv split: if_splits)

text \<open>
  C9 (as amended). When a user with a stored profile name exists, \<open>upsertUser\<close> called
  without a profile name (\<open>undefined\<close>, sent to the server as \<open>NULL\<close>) leaves the stored
  name as it is, whether the statement succeeds or fails.
\<close>

theorem upsertUser_keeps_profile_name:
  assumes "stored_profile_names w waId = [Some name]"
  shows "stored_profile_names (snd (UserRepository_upsertUser w new_id now waId phoneNumber None)) waId
           = [Some name]"
proof -
  obtain r w' where q: "executeQuery w (sql_upsert_user new_id now waId phoneNumber None) = (r, w')"
    by (cases "executeQuery w (sql_upsert_user new_id now waId phoneNumber None)")
  have ne: "filter (\<lambda>u. u_wa_id u = waId) (db_users w) \<noteq> []"
    using assms by (auto simp: stored_profile_names_def)
  have "stored_profile_names w' waId = stored_profile_names w waId"
    using executeQuery_cases [OF q]
  proof (elim disjE conjE exE)
    fix x assume "sql_upsert_user new_id now waId phoneNumber None (w\<lparr>db_queries := db_queries w + 1\<rparr>) = Inr (x, w')"
    from upsert_stmt_keeps_names [OF this] ne show ?thesis
      by (simp add: stored_profile_names_def)
  qed (simp_all add: stored_profile_names_def)
  moreover have "snd (UserRepository_upsertUser w new_id now waId phoneNumber None) = w'"
    using q by (simp add: UserRepository_upsertUser_def split: sum.splits)
  ultimately show ?thesis using assms by simp
qed

theorem upsertUser_keeps_profile_name_witness:
  "stored_profile_names (snd (UserRepository_upsertUser
     \<lparr>db_connected = True, db_queries = 0,
      db_users = [\<lparr>u_id = ''u1'', u_wa_id = ''573001112233'', u_phone_number = ''573001112233'',
                  u_profile_name = Some ''Ana'', u_created_at = 100, u_updated_at = 100\<rparr>],
      db_conversations = [], db_messages = [], db_sessions = [], tool_memory = [], calls = []\<rparr>
     ''u2'' 200 ''573001112233'' ''573001112233'' None)) ''573001112233'' = [Some ''Ana'']"
  by (rule upsertUser_keeps_profile_name) (simp add: stored_profile_names_def)

text \<open>
  The claim as stated fails for the empty string: \<open>COALESCE\<close> keeps the stored name
  only for \<open>NULL\<close>, and \<open>''\<close> replaces the name \<open>Ana\<close>.
\<close>

theorem upsertUser_empty_name_counterexample:
  "stored_profile_names
     \<lparr>db_connected = True, db_queries = 0,
      db_users = [\<lparr>u_id = ''u1'', u_wa_id = ''573001112233'', u_phone_number = ''573001112233'',
                  u_profile_name = Some ''Ana'', u_created_at = 100, u_updated_at = 100\<rparr>],
      db_conversations = [], db_messages = [], db_sessions = [], tool_memory = [], calls = []\<rparr>
     ''573001112233'' = [Some ''Ana'']
   \<and> stored_profile_names (snd (UserRepository_upsertUser
     \<lparr>db_connected = True, db_queries = 0,
      db_users = [\<lparr>u_id = ''u1'', u_wa_id = ''573001112233'', u_phone_number = ''573001112233'',
                  u_profile_name = Some ''Ana'', u_created_at = 100, u_updated_at = 100\<rparr>],
      db_conversations = [], db_messages = [], db_sessions = [], tool_memory = [], calls = []\<rparr>
     ''u2'' 200 ''573001112233'' ''573001112233'' (Some ''''))) ''573001112233'' = [Some '''']"
  by (simp add: stored_profile_names_def UserRepository_upsertUser_def executeQuery_def
      sql_upsert_user_def too_long_def upsert_user_row_def Let_def)

lemma insert_message_success:
  "sql_insert_message new_id now conv dir ty content (Some wamid) ts w = Inr (x, w') \<Longrightarrow>
     rows_with_wa_id w wamid = [] \<and> length (rows_with_wa_id w' wamid) = 1
     \<and> db_connected w' = db_connected w \<and> \<not> 20 < length ty \<and> \<not> 255 < length wamid"
  by (auto simp: sql_insert_message_def rows_with_wa_id_def too_long_def filter_empty_conv
      split: if_splits)

lemma insert_message_duplicate:
  "rows_with_wa_id w wamid \<noteq> [] \<Longrightarrow> \<not> 20 < length ty \<Longrightarrow> \<not> 255 < length wamid \<Longrightarrow>
     sql_insert_message new_id now conv dir ty content (Some wamid) ts w = Inl (PgError ''23505'')"
  by (auto simp: sql_insert_message_def rows_with_wa_id_def too_long_def filter_empty_conv)

lemma insert_message_duplicate_fails:
  "rows_with_wa_id w wamid \<noteq> [] \<Longrightarrow>
     \<exists>e. sql_insert_message new_id now conv dir ty content (Some wamid) ts w = Inl e"
  by (auto simp: sql_insert_message_def rows_with_wa_id_def filter_empty_conv)

lemma saveMessage_first:
  assumes "MessageRepository_saveMessage w id1 now1 conv dir ty content (Some wamid) ts = (Inr mid, w1)"
  shows "db_connected w1 \<and> length (rows_with_wa_id w1 wamid) = 1
     \<and> conv \<noteq> [] \<and> ty \<noteq> [] \<and> content \<noteq> [] \<and> \<not> 20 < length ty \<and> \<not> 255 < length wamid"
proof -
  from assms have ne: "conv \<noteq> []" "ty \<noteq> []" "content \<noteq> []"
    by (auto simp: MessageRepository_saveMessage_def split: if_splits)
  let ?t = "case ts of None \<Rightarrow> now1 | Some t \<Rightarrow> t"
  obtain r wa where q1: "executeQuery w (sql_insert_message id1 now1 conv dir ty content (Some wamid) ?t) = (r, wa)"
    by (cases "executeQuery w (sql_insert_message id1 now1 conv dir ty content (Some wamid) ?t)")
  with assms ne obtain x where r: "r = Inr x"
    by (cases r) (auto simp: MessageRepository_saveMessage_def Let_def)
  from executeQuery_cases [OF q1] r
  have conn: "db_connected w"
    and ins: "sql_insert_message id1 now1 conv dir ty content (Some wamid) ?t (w\<lparr>db_queries := db_queries w + 1\<rparr>) = Inr (x, wa)"
    by auto
  from insert_message_success [OF ins] conn
  have wa: "length (rows_with_wa_id wa wamid) = 1" "db_connected wa" "\<not> 20 < length ty" "\<not> 255 < length wamid"
    by auto
  from assms ne q1 r wa(2)
  have "db_messages w1 = db_messages wa \<and> db_connected w1"
    by (auto simp: MessageRepository_saveMessage_def Let_def
        ConversationRepository_updateConversationTimestamp_def executeQuery_def sql_touch_conversation_def
        split: if_splits sum.splits prod.splits)
  with wa ne show ?thesis by (simp add: rows_with_wa_id_def)
qed

lemma saveMessage_second:
  assumes "db_connected w1" "rows_with_wa_id w1 wamid \<noteq> []"
  shows "\<exists>e. fst (MessageRepository_saveMessage w1 id2 now2 conv2 dir2 ty2 content2 (Some wamid) ts2) = Inl e"
    and "db_messages (snd (MessageRepository_saveMessage w1 id2 now2 conv2 dir2 ty2 content2 (Some wamid) ts2))
           = db_messages w1"
proof -
  let ?t = "case ts2 of None \<Rightarrow> now2 | Some t \<Rightarrow> t"
  let ?w = "w1\<lparr>db_queries := db_queries w1 + 1\<rparr>"
  have "rows_with_wa_id ?w wamid \<noteq> []" using assms(2) by (simp add: rows_with_wa_id_def)
  from insert_message_duplicate_fails [OF this]
  obtain e where "sql_insert_message id2 now2 conv2 dir2 ty2 content2 (Some wamid) ?t ?w = Inl e"
    by blast
  then have q: "executeQuery w1 (sql_insert_message id2 now2 conv2 dir2 ty2 content2 (Some wamid) ?t) = (Inl e, ?w)"
    using assms(1) by (simp add: executeQuery_def Let_def)
  show "\<exists>e. fst (MessageRepository_saveMessage w1 id2 now2 conv2 dir2 ty2 content2 (Some wamid) ts2) = Inl e"
    using q by (simp add: MessageRepository_saveMessage_def Let_def)
  show "db_messages (snd (MessageRepository_saveMessage w1 id2 now2 conv2 dir2 ty2 content2 (Some wamid) ts2))
           = db_messages w1"
    using q by (simp add: MessageRepository_saveMessage_def Let_def)
qed

lemma saveMessage_retry:
  assumes "db_connected w1" "rows_with_wa_id w1 wamid \<noteq> []"
    "conv \<noteq> []" "ty \<noteq> []" "content \<noteq> []" "\<not> 20 < length ty" "\<not> 255 < length wamid"
  shows "fst (MessageRepository_saveMessage w1 id2 now2 conv dir ty content (Some wamid) ts2) = Inl (PgError ''23505'')"
proof -
  let ?t = "case ts2 of None \<Rightarrow> now2 | Some t \<Rightarrow> t"
  let ?w = "w1\<lparr>db_queries := db_queries w1 + 1\<rparr>"
  have "rows_with_wa_id ?w wamid \<noteq> []" using assms(2) by (simp add: rows_with_wa_id_def)
  from insert_message_duplicate [OF this assms(6,7)]
  have "sql_insert_message id2 now2 conv dir ty content (Some wamid) ?t ?w = Inl (PgError ''23505'')" .
  then have "executeQuery w1 (sql_insert_message id2 now2 conv dir ty content (Some wamid) ?t) = (Inl (PgError ''23505''), ?w)"
    using assms(1) by (simp add: executeQuery_def Let_def)
  then show ?thesis using assms(3-5) by (simp add: MessageRepository_saveMessage_def Let_def)
qed

text \<open>
  C1 (as amended). With the store available, once \<open>saveMessage\<close> has stored a message
  under a provider message id, every later \<open>saveMessage\<close> with that id raises an
  exception to its caller and stores nothing, so exactly one row holds the id; a retry
  of the same message raises the unique violation \<open>23505\<close>. With the store unavailable
  \<open>saveMessage\<close> stores nothing and returns an id made in memory.
\<close>

theorem saveMessage_duplicate_delivery:
  assumes "AgentMemory_saveMessage True w id1 now1 conv dir ty content (Some wamid) ts = (Inr mid, w1)"
  shows "(\<exists>e. fst (AgentMemory_saveMessage True w1 id2 now2 conv2 dir2 ty2 content2 (Some wamid) ts2) = Inl e)
     \<and> db_messages (snd (AgentMemory_saveMessage True w1 id2 now2 conv2 dir2 ty2 content2 (Some wamid) ts2))
         = db_messages w1
     \<and> length (rows_with_wa_id
         (snd (AgentMemory_saveMessage True w1 id2 now2 conv2 dir2 ty2 content2 (Some wamid) ts2)) wamid) = 1
     \<and> fst (AgentMemory_saveMessage True w1 id2 now2 conv dir ty content (Some wamid) ts2)
         = Inl (PgError ''23505'')
     \<and> AgentMemory_saveMessage False w id1 now1 conv dir ty content (Some wamid) ts
         = (Inr (''msg_'' @ conv @ ''_'' @ show_nat now1), w)"
proof -
  from assms have "MessageRepository_saveMessage w id1 now1 conv dir ty content (Some wamid) ts = (Inr mid, w1)"
    by (simp add: AgentMemory_saveMessage_def)
  from saveMessage_first [OF this]
  have f: "db_connected w1" "length (rows_with_wa_id w1 wamid) = 1"
     "conv \<noteq> []" "ty \<noteq> []" "content \<noteq> []" "\<not> 20 < length ty" "\<not> 255 < length wamid"
    by auto
  then have ne: "rows_with_wa_id w1 wamid \<noteq> []" by auto
  note s = saveMessage_second [OF f(1) ne, of id2 now2 conv2 dir2 ty2 content2 ts2]
  have "length (rows_with_wa_id
         (snd (MessageRepository_saveMessage w1 id2 now2 conv2 dir2 ty2 content2 (Some wamid) ts2)) wamid) = 1"
    using s(2) f(2) by (simp add: rows_with_wa_id_def)
  with s saveMessage_retry [OF f(1) ne f(3-7), of id2 now2 dir ts2]
  show ?thesis by (simp add: AgentMemory_saveMessage_def)
qed

theorem saveMessage_duplicate_delivery_witness:
  "fst (AgentMemory_saveMessage True
     (snd (AgentMemory_saveMessage True
        \<lparr>db_connected = True, db_queries = 0,
         db_users = [\<lparr>u_id = ''u1'', u_wa_id = ''573001112233'', u_phone_number = ''573001112233'',
                  u_profile_name = None, u_created_at = 100, u_updated_at = 100\<rparr>],
         db_conversations = [\<lparr>c_id = ''c1'', c_user_id = ''u1'', c_title = None,
                  c_created_at = 100, c_updated_at = 100\<rparr>],
         db_messages = [], db_sessions = [], tool_memory = [], calls = []\<rparr>
        ''m1'' 200 ''c1'' Incoming ''text'' ''hola'' (Some ''wamid.A1'') None))
     ''m2'' 300 ''c1'' Incoming ''text'' ''hola'' (Some ''wamid.A1'') None) = Inl (PgError ''23505'')"
proof -
  let ?w = "\<lparr>db_connected = True, db_queries = 0,
         db_users = [\<lparr>u_id = ''u1'', u_wa_id = ''573001112233'', u_phone_number = ''573001112233'',
                  u_profile_name = None, u_created_at = 100, u_updated_at = 100\<rparr>],
         db_conversations = [\<lparr>c_id = ''c1'', c_user_id = ''u1'', c_title = None,
                  c_created_at = 100, c_updated_at = 100\<rparr>],
         db_messages = [], db_sessions = [], tool_memory = [], calls = []\<rparr>"
  have first: "fst (AgentMemory_saveMessage True ?w ''m1'' 200 ''c1'' Incoming ''text'' ''hola'' (Some ''wamid.A1'') None)
      = Inr ''m1''"
    by (simp add: AgentMemory_saveMessage_def MessageRepository_saveMessage_def executeQuery_def
        sql_insert_message_def too_long_def Let_def
        ConversationRepository_updateConversationTimestamp_def sql_touch_conversation_def)
  have "AgentMemory_saveMessage True ?w ''m1'' 200 ''c1'' Incoming ''text'' ''hola'' (Some ''wamid.A1'') None
      = (Inr ''m1'', snd (AgentMemory_saveMessage True ?w ''m1'' 200 ''c1'' Incoming ''text'' ''hola'' (Some ''wamid.A1'') None))"
    using first by (metis prod.collapse)
  from saveMessage_duplicate_delivery [OF this, of "''m2''" 300 "''c1''" Incoming "''text''" "''hola''" None]
  show ?thesis by simp
qed

text \<open>
  The claim as stated fails: the second delivery of \<open>wamid.A1\<close> is not absorbed by
  \<open>saveMessage\<close>; the unique violation is raised to the caller.
\<close>

theorem saveMessage_duplicate_counterexample:
  "fst (AgentMemory_saveMessage True
        \<lparr>db_connected = True, db_queries = 0,
         db_users = [\<lparr>u_id = ''u1'', u_wa_id = ''573001112233'', u_phone_number = ''573001112233'',
                  u_profile_name = None, u_created_at = 100, u_updated_at = 100\<rparr>],
         db_conversations = [\<lparr>c_id = ''c1'', c_user_id = ''u1'', c_title = None,
                  c_created_at = 100, c_updated_at = 100\<rparr>],
         db_messages = [], db_sessions = [], tool_memory = [], calls = []\<rparr>
        ''m1'' 200 ''c1'' Incoming ''text'' ''hola'' (Some ''wamid.A1'') None) = Inr ''m1''
   \<and> fst (AgentMemory_saveMessage True
     (snd (AgentMemory_saveMessage True
        \<lparr>db_connected = True, db_queries = 0,
         db_users = [\<lparr>u_id = ''u1'', u_wa_id = ''573001112233'', u_phone_number = ''573001112233'',
                  u_profile_name = None, u_created_at = 100, u_updated_at = 100\<rparr>],
         db_conversations = [\<lparr>c_id = ''c1'', c_user_id = ''u1'', c_title = None,
                  c_created_at = 100, c_updated_at = 100\<rparr>],
         db_messages = [], db_sessions = [], tool_memory = [], calls = []\<rparr>
        ''m1'' 200 ''c1'' Incoming ''text'' ''hola'' (Some ''wamid.A1'') None))
     ''m2'' 300 ''c1'' Incoming ''text'' ''hola'' (Some ''wamid.A1'') None) = Inl (PgError ''23505'')"
  by (simp add: AgentMemory_saveMessage_def MessageRepository_saveMessage_def executeQuery_def
        sql_insert_message_def too_long_def Let_def
        ConversationRepository_updateConversationTimestamp_def sql_touch_conversation_def)

subsection \<open>The agent: degraded store and the ping reply\<close>

lemma untouched_refl: "untouched w w"
  by (simp add: untouched_def)

lemma untouched_trans: "untouched a b \<Longrightarrow> untouched b c \<Longrightarrow> untouched a c"
  by (simp add: untouched_def)

lemma getUserByWaId_untouched: "untouched w (snd (UserRepository_getUserByWaId w waId))"
  by (auto simp: untouched_def UserRepository_getUserByWaId_def executeQuery_def
      sql_select_user_by_wa_id_def Let_def split: prod.splits sum.splits)

lemma upsertUser_untouched: "untouched w (snd (UserRepository_upsertUser w i n a b c))"
  by (auto simp: untouched_def UserRepository_upsertUser_def executeQuery_def
      sql_upsert_user_def Let_def split: prod.splits sum.splits if_splits)

lemma loadAgentState_untouched: "untouched w (snd (AgentMemory_loadAgentState av w n u))"
  by (auto simp: untouched_def AgentMemory_loadAgentState_def SessionRepository_getAgentState_def
      executeQuery_def sql_select_session_def Let_def split: prod.splits sum.splits list.splits)

lemma getOrCreateConversation_untouched:
  "untouched w (snd (AgentMemory_getOrCreateConversation av w i n u t))"
  by (auto simp: untouched_def AgentMemory_getOrCreateConversation_def repo_getOrCreateConversation_def
      ConversationRepository_getUserConversations_def ConversationRepository_createConversation_def
      executeQuery_def sql_select_user_conversations_def sql_insert_conversation_def Let_def
      split: prod.splits sum.splits list.splits if_splits)

lemma turn_setup_untouched:
  "untouched w (snd (turn_setup av env w waId content pn))"
proof -
  note u1 = getUserByWaId_untouched [of w waId]
  show ?thesis
  proof (cases "UserRepository_getUserByWaId w waId")
    case (Pair r1 w1)
    with u1 have a1: "untouched w w1" by simp
    show ?thesis
    proof (cases r1)
      case (Inl e)
      with Pair a1 show ?thesis by (simp add: turn_setup_def untouched_refl)
    next
      case (Inr found)
      define step2 where "step2 = (case found of Some u \<Rightarrow> (Inr (Some u), w1)
              | None \<Rightarrow> UserRepository_upsertUser w1 (e_uuid_user env) (e_now env) waId waId pn)"
      obtain r2 w2 where s2: "step2 = (r2, w2)" by (cases step2)
      have a2: "untouched w w2"
        using a1 s2 upsertUser_untouched [of w1 "e_uuid_user env" "e_now env" waId waId pn]
        by (auto simp: step2_def split: option.splits intro: untouched_trans)
      show ?thesis
      proof (cases r2)
        case (Inl e)
        with Pair Inr s2 a2 show ?thesis
          by (simp add: turn_setup_def step2_def [symmetric] untouched_refl)
      next
        case r2: (Inr ou)
        show ?thesis
        proof (cases ou)
          case None
          with Pair Inr s2 a2 r2 show ?thesis
            by (simp add: turn_setup_def step2_def [symmetric] untouched_refl)
        next
          case (Some user)
          obtain r3 w3 where s3: "AgentMemory_loadAgentState av w2 (e_now env) (u_id user) = (r3, w3)"
            by (cases "AgentMemory_loadAgentState av w2 (e_now env) (u_id user)")
          have a3: "untouched w w3"
            using a2 s3 loadAgentState_untouched [of w2 av "e_now env" "u_id user"]
            by (auto intro: untouched_trans)
          obtain r4 w4 where s4: "AgentMemory_getOrCreateConversation av w3 (e_uuid_conversation env)
              (e_now env) (u_id user) (Some ''WhatsApp Conversation'') = (r4, w4)"
            by (cases "AgentMemory_getOrCreateConversation av w3 (e_uuid_conversation env)
              (e_now env) (u_id user) (Some ''WhatsApp Conversation'')")
          have a4: "untouched w w4"
            using a3 s4 getOrCreateConversation_untouched [of w3 av "e_uuid_conversation env"
               "e_now env" "u_id user" "Some ''WhatsApp Conversation''"]
            by (auto intro: untouched_trans)
          from Pair Inr s2 r2 Some s3 s4 a3 a4 show ?thesis
            by (auto simp: turn_setup_def step2_def [symmetric] Let_def untouched_refl
                split: sum.splits option.splits)
        qed
      qed
    qed
  qed
qed

lemma turn_setup_last:
  "turn_setup av env w waId content pn = (Inr (uid, st), w') \<Longrightarrow>
     as_messages st \<noteq> [] \<and> last (as_messages st) = \<lparr>cm_role = User, cm_content = content, cm_timestamp = e_now env\<rparr>"
  by (auto simp: turn_setup_def addMessageToState_def Let_def
      split: if_splits prod.splits sum.splits option.splits)

lemma response_texts_nonempty:
  "apology_turn \<noteq> []" "not_understood \<noteq> []" "apology_tool_logic \<noteq> []" "apology_tool \<noteq> []"
  "generic_reply \<noteq> []"
  by (simp_all add: apology_turn_def not_understood_def apology_tool_logic_def apology_tool_def
      generic_reply_def)

lemma run_patterns_none:
  "first_match content tbl = None \<Longrightarrow> run_patterns tools env w st content tbl = (None, w)"
  by (induction tbl) (auto split: if_splits)

lemma run_patterns_first:
  "first_match content tbl = Some name \<Longrightarrow> getToolByName tools name = Some tool \<Longrightarrow>
   run_patterns tools env w st content tbl =
     (case tool_execute tool (extractToolInput content name (ctx_get (as_context st) ''user_id''))
             env (tool_memory w) of
        (Inr result, mem) \<Rightarrow> (Some result, w\<lparr>tool_memory := mem, calls := calls w @ [ToolRun name]\<rparr>)
      | (Inl e, mem) \<Rightarrow> (Some apology_tool_logic, w\<lparr>tool_memory := mem, calls := calls w @ [ToolRun name]\<rparr>))"
  by (induction tbl) (auto split: if_splits)

lemma tools_by_name:
  "getToolByName AVAILABLE_TOOLS ''get_current_time'' = Some TimeTool"
  "getToolByName AVAILABLE_TOOLS ''web_search'' = Some WebSearchTool"
  "getToolByName AVAILABLE_TOOLS ''calculator'' = Some CalculatorTool"
  "getToolByName AVAILABLE_TOOLS ''remember_info'' = Some MemoryTool"
  "getToolByName AVAILABLE_TOOLS ''courtesy_response'' = Some CourtesyTool"
  by (simp_all add: getToolByName_def AVAILABLE_TOOLS_def TimeTool_def WebSearchTool_def
      CalculatorTool_def MemoryTool_def CourtesyTool_def)

lemma show_now: "show_nat 1700000000000 = ''1700000000000''"
  by (simp add: show_nat.simps; code_simp)

lemma hola_facts:
  "toLowerCase ''hola'' = ''hola''"
  "first_match ''hola'' toolPatterns_logic = Some ''courtesy_response''"
  "trim ''hola'' = ''hola''"
  "trim ''573001112233'' = ''573001112233''"
  "\<not> str_includes ''hola'' ''ping''"
  by code_simp+

lemma hola_input:
  "extractToolInput ''hola'' ''courtesy_response'' u = JObj [(''type'', JStr ''greeting'')]"
  by code_simp

lemma example_world_fields:
  "db_connected example_world" "tool_memory example_world = []" "calls example_world = []"
  "db_sessions example_world = []" "db_messages example_world = []"
  by (simp_all add: example_world_def)

lemma setup_example_degraded:
  "turn_setup False example_env example_world ''573001112233'' ''hola'' None
     = (Inr (''u1'', addMessageToState 1700000000000
                 (createInitialAgentState 1700000000000 ''mem_u1_1700000000000'' ''u1'') User ''hola''),
              example_world\<lparr>db_queries := 1\<rparr>)"
  by (simp add: turn_setup_def example_env_def example_world_def hola_facts show_now
        UserRepository_getUserByWaId_def executeQuery_def sql_select_user_by_wa_id_def
        AgentMemory_loadAgentState_def AgentMemory_getOrCreateConversation_def Let_def)

lemma hola_response:
  "tr_response (processTextMessage AVAILABLE_TOOLS False example_env example_world
          ''573001112233'' ''hola'' (Some ''wamid.A1'') None)
        = [inv_excl] @ ''Hola! '' @ [inv_quest] @ ''En qu'' @ [e_acute] @ '' puedo ayudarte hoy?''"
proof -
  have c: "tool_execute CourtesyTool (JObj [(''type'', JStr ''greeting'')]) example_env []
      = (Inr ([inv_excl] @ ''Hola! '' @ [inv_quest] @ ''En qu'' @ [e_acute] @ '' puedo ayudarte hoy?''), [])"
    by (simp add: CourtesyTool_def CourtesyTool_execute_def courtesy_responses_def example_env_def)
  show ?thesis
    by (simp add: processTextMessage_def setup_example_degraded hola_facts hola_input
        processMessageWithLogic_def run_patterns_first [OF hola_facts(2) tools_by_name(5)] c
        example_world_fields Let_def)
qed

lemma down_response:
  "processTextMessage tools av example_env (example_world\<lparr>db_connected := False\<rparr>)
      ''573001112233'' content mid pn
   = (if content = [] \<or> trim content = []
      then \<lparr>tr_response = apology_turn, tr_state = None, tr_world = example_world\<lparr>db_connected := False\<rparr>\<rparr>
      else \<lparr>tr_response = apology_turn, tr_state = None,
             tr_world = example_world\<lparr>db_connected := False, db_queries := 1\<rparr>\<rparr>)"
  by (simp add: processTextMessage_def turn_setup_def hola_facts UserRepository_getUserByWaId_def
      executeQuery_def example_world_def Let_def)

lemma ping_facts:
  "str_includes (toLowerCase ''Ping?'') ''ping''" "trim ''Ping?'' = ''Ping?''"
  "str_includes (toLowerCase ''ping'') ''ping''" "trim ''ping'' = ''ping''"
  by code_simp+

lemma setup_example_ping:
  "turn_setup True example_env example_world ''573001112233'' ''Ping?'' None
      = (Inr (''u1'', example_state ''Ping?''), example_world\<lparr>db_queries := 3\<rparr>)"
  by (simp add: turn_setup_def example_env_def example_world_def example_state_def hola_facts ping_facts
        UserRepository_getUserByWaId_def executeQuery_def sql_select_user_by_wa_id_def
        AgentMemory_loadAgentState_def SessionRepository_getAgentState_def sql_select_session_def
        AgentMemory_getOrCreateConversation_def repo_getOrCreateConversation_def
        ConversationRepository_getUserConversations_def sql_select_user_conversations_def Let_def)

text \<open>
  The claim as stated fails when the user cannot be looked up: with the server out of
  reach \<open>getUserByWaId\<close> raises and the answer to \<open>ping\<close> is the apology.
\<close>

theorem ping_store_down_counterexample:
  "str_includes (toLowerCase ''ping'') ''ping''
   \<and> tr_response (processTextMessage AVAILABLE_TOOLS True example_env
        (example_world\<lparr>db_connected := False\<rparr>) ''573001112233'' ''ping'' (Some ''wamid.A1'') None)
      \<noteq> ''pong''"
  by (simp add: ping_facts down_response apology_turn_def)

subsection \<open>The agent: tools, failures and finalization\<close>

lemma map_of_update_key:
  "map_of (map (\<lambda>(k', v'). if k' = k then (k', v) else (k', v')) kvs) k'
     = (if k' = k \<and> map_of kvs k \<noteq> None then Some v else map_of kvs k')"
  by (induction kvs) auto

lemma ctx_get_set_prop:
  "ctx_get (set_prop kvs k v) k' = (if k' = k then v else ctx_get kvs k')"
  by (auto simp: ctx_get_def set_prop_def map_of_update_key map_add_def split: option.splits)

lemma trim_Nil: "trim [] = []"
  by (simp add: trim_def)

lemma saveAgentState_success:
  assumes "can_persist w env uid st"
  shows "\<exists>w'. AgentMemory_saveAgentState True w (e_uuid_session env) now uid st = (Inr (), w')
     \<and> persisted w' uid st \<and> tool_memory w' = tool_memory w \<and> calls w' = calls w"
proof -
  from assms have c: "db_connected w" "trim uid \<noteq> []" "trim (as_session_id st) \<noteq> []"
    "\<exists>u\<in>set (db_users w). u_id u = uid"
    "(\<exists>s\<in>set (db_sessions w). s_user_id s = uid) \<or> \<not> (\<exists>s\<in>set (db_sessions w). s_id s = e_uuid_session env)"
    by (auto simp: can_persist_def)
  from c(2) have ne: "uid \<noteq> []" using trim_Nil by auto
  show ?thesis
  proof (cases "\<exists>s\<in>set (db_sessions w). s_user_id s = uid")
    case True
    then obtain s0 where s0: "s0 \<in> set (db_sessions w)" "s_user_id s0 = uid" by blast
    then have f: "filter (\<lambda>s. s_user_id s = uid) (db_sessions w) \<noteq> []"
      by (auto simp: filter_empty_conv)
    then obtain x xs where fx: "map s_id (filter (\<lambda>s. s_user_id s = uid) (db_sessions w)) = x # xs"
      by (cases "filter (\<lambda>s. s_user_id s = uid) (db_sessions w)") auto
    from True c ne fx s0 show ?thesis
      by (auto simp: AgentMemory_saveAgentState_def SessionRepository_saveAgentState_def
          executeQuery_def sql_upsert_session_def persisted_def Let_def
          intro!: bexI [where x = "s0\<lparr>s_agent_state := safeAgentState st, s_updated_at := now\<rparr>"])
  next
    case False
    with c ne show ?thesis
      by (auto simp: AgentMemory_saveAgentState_def SessionRepository_saveAgentState_def
          executeQuery_def sql_upsert_session_def persisted_def Let_def)
  qed
qed

lemma analyzeIntent_last_user:
  assumes "as_messages st = ms @ [m]" "cm_role m = User"
  shows "analyzeIntent st =
     (case first_match (toLowerCase (cm_content m)) toolPatterns of
        Some toolName \<Rightarrow>
          st\<lparr>as_context := set_prop (set_prop (as_context st) ''selected_tool'' (JStr toolName))
                 ''tool_input''
                 (extractToolInput (toLowerCase (cm_content m)) toolName (ctx_get (as_context st) ''user_id'')),
             as_current_node := Some ''use_tool''\<rparr>
      | None \<Rightarrow> st\<lparr>as_current_node := Some ''respond''\<rparr>)"
proof -
  have f: "filter (\<lambda>m. cm_role m = User) (as_messages st) = filter (\<lambda>m. cm_role m = User) ms @ [m]"
    using assms by simp
  then have "filter (\<lambda>m. cm_role m = User) (as_messages st) \<noteq> []" by simp
  then obtain y ys where y: "filter (\<lambda>m. cm_role m = User) (as_messages st) = y # ys"
    by (meson neq_Nil_conv)
  have l: "last (y # ys) = m" using f y by (metis last_snoc)
  show ?thesis
    unfolding analyzeIntent_def y Let_def list.case l by (rule refl)
qed






lemma finalize_persists:
  assumes "ctx_get (as_context st) ''user_id'' = JStr uid" "av \<longrightarrow> can_persist w env uid st"
  shows "case finalizeResponse av env w st of (st3, w3) \<Rightarrow>
           as_current_node st3 = Some END \<and> as_messages st3 = as_messages st
           \<and> (av \<longrightarrow> persisted w3 uid st)"
proof (cases av)
  case False
  then show ?thesis by (simp add: finalizeResponse_def)
next
  case True
  with assms(2) have "can_persist w env uid st" by simp
  from saveAgentState_success [OF this, of "e_now env"]
  obtain w' where "AgentMemory_saveAgentState True w (e_uuid_session env) (e_now env) uid st = (Inr (), w')"
    "persisted w' uid st" by blast
  with True assms(1) show ?thesis by (simp add: finalizeResponse_def)
qed










lemma recuerda_facts:
  "toLowerCase ''recuerda que me llamo ana'' = ''recuerda que me llamo ana''"
  "first_match ''recuerda que me llamo ana'' toolPatterns = Some ''remember_info''"
  "first_match ''recuerda que me llamo ana'' toolPatterns_logic = None"
  "static_reply ''recuerda que me llamo ana'' = generic_reply"
  by code_simp+

text \<open>
  C6 (the code departs from the claim). \<open>analyzeIntent\<close> scans five mappings and routes
  \<open>recuerda que me llamo ana\<close> to \<open>remember_info\<close>; the table of
  \<open>processMessageWithLogic\<close>, the function that \<open>processTextMessage\<close> runs, has no
  mapping for \<open>remember_info\<close>: there no pattern matches, no tool runs and the text
  goes to the generation path.
\<close>

theorem memory_tool_not_reached:
  "first_match (toLowerCase ''recuerda que me llamo ana'') toolPatterns = Some ''remember_info''
   \<and> first_match (toLowerCase ''recuerda que me llamo ana'') toolPatterns_logic = None
   \<and> processMessageWithLogic AVAILABLE_TOOLS env w st ''recuerda que me llamo ana''
       = (if \<not> e_openai_key env then (generic_reply, w)
          else (if OpenAIService_generateResponse env ''recuerda que me llamo ana'' = [] then generic_reply
                else OpenAIService_generateResponse env ''recuerda que me llamo ana'',
                w\<lparr>calls := calls w @ [Completion ''recuerda que me llamo ana'']\<rparr>))"
  by (simp add: recuerda_facts processMessageWithLogic_def run_patterns_none Let_def)

subsection \<open>The turn of \<open>processTextMessage\<close>: degraded store, short circuit, tools\<close>

lemma setup_fails_when_down:
  "\<not> db_connected w \<Longrightarrow> \<exists>e w1. turn_setup av env w waId content pn = (Inl e, w1)"
  by (simp add: turn_setup_def UserRepository_getUserByWaId_def executeQuery_def Let_def)

lemma turn_of_failed_setup:
  "turn_setup av env w waId content pn = (Inl e, w1) \<Longrightarrow>
   processTextMessage tools av env w waId content mid pn
     = \<lparr>tr_response = apology_turn, tr_state = None, tr_world = w1\<rparr>"
  by (simp add: processTextMessage_def)

lemma turn_when_down:
  assumes "\<not> db_connected w"
  shows "tr_response (processTextMessage tools av env w waId content mid pn) = apology_turn
     \<and> tr_state (processTextMessage tools av env w waId content mid pn) = None
     \<and> untouched w (tr_world (processTextMessage tools av env w waId content mid pn))"
proof -
  from setup_fails_when_down [OF assms]
  obtain e w1 where s: "turn_setup av env w waId content pn = (Inl e, w1)" by blast
  have "untouched w w1" using turn_setup_untouched [of w av env waId content pn] s by simp
  then show ?thesis by (simp add: turn_of_failed_setup [OF s])
qed

lemma turn_response_nonempty:
  "tr_response (processTextMessage tools av env w waId content mid pn) \<noteq> []"
  by (auto simp: processTextMessage_def response_texts_nonempty Let_def split: prod.splits sum.splits)

text \<open>
  C2 (the code departs from the claim). With the availability flag false, for every
  user id \<open>loadAgentState\<close> returns \<open>null\<close> and \<open>saveAgentState\<close> returns, both leaving
  the world (the tables and the count of queries) as it was, and \<open>processTextMessage\<close>
  returns a non-empty text. But the lookup of the user at the start of
  \<open>processTextMessage\<close> is not guarded by the flag: when the server is out of reach,
  which is when \<open>index.ts\<close> sets the flag to false, the lookup raises, and the turn is
  the apology of the outer \<open>catch\<close>, with no state, no tool and no generation.
\<close>

theorem degraded_turn_when_store_down:
  "AgentMemory_loadAgentState False w now userId = (Inr None, w)
   \<and> AgentMemory_saveAgentState False w new_id now userId agentState = (Inr (), w)
   \<and> tr_response (processTextMessage tools False env w waId messageContent waMessageId profileName) \<noteq> []
   \<and> (\<not> db_connected w \<longrightarrow>
        tr_response (processTextMessage tools False env w waId messageContent waMessageId profileName)
          = apology_turn
        \<and> tr_state (processTextMessage tools False env w waId messageContent waMessageId profileName)
          = None
        \<and> untouched w
            (tr_world (processTextMessage tools False env w waId messageContent waMessageId profileName)))"
  using turn_when_down [of w tools False env waId messageContent waMessageId profileName]
    turn_response_nonempty [of tools False env w waId messageContent waMessageId profileName]
  by (simp add: AgentMemory_loadAgentState_def AgentMemory_saveAgentState_def)

theorem degraded_turn_when_store_down_witness:
  "tr_response (processTextMessage AVAILABLE_TOOLS False example_env
        (example_world\<lparr>db_connected := False\<rparr>) ''573001112233'' ''hola'' (Some ''wamid.A1'') None)
      = apology_turn
   \<and> tr_state (processTextMessage AVAILABLE_TOOLS False example_env
        (example_world\<lparr>db_connected := False\<rparr>) ''573001112233'' ''hola'' (Some ''wamid.A1'') None)
      = None
   \<and> tr_response (processTextMessage AVAILABLE_TOOLS False example_env example_world
        ''573001112233'' ''hola'' (Some ''wamid.A1'') None)
      = [inv_excl] @ ''Hola! '' @ [inv_quest] @ ''En qu'' @ [e_acute] @ '' puedo ayudarte hoy?''"
  using degraded_turn_when_store_down [where w = "example_world\<lparr>db_connected := False\<rparr>"
      and tools = AVAILABLE_TOOLS and env = example_env and waId = "''573001112233''"
      and messageContent = "''hola''" and waMessageId = "Some ''wamid.A1''" and profileName = None]
    hola_response
  by simp

text \<open>
  C10 (as amended). For a message whose lowercased content contains \<open>ping\<close>,
  \<open>processTextMessage\<close> runs no tool and no generation and stores neither a session nor
  a message, and it returns \<open>pong\<close> or the apology of the outer \<open>catch\<close>. Whenever the
  first part of the function (the check of the arguments, the user, the state) raises
  no exception, the result is exactly \<open>pong\<close>, and the state of the turn ends with the
  user's turn: no assistant turn is appended. Whenever the first part raises, the
  result is exactly the apology, with no state.
\<close>

theorem ping_short_circuit:
  assumes "str_includes (toLowerCase messageContent) ''ping''"
  shows "untouched w (tr_world (processTextMessage tools av env w waId messageContent mid pn))
    \<and> (tr_response (processTextMessage tools av env w waId messageContent mid pn) = ''pong''
       \<or> tr_response (processTextMessage tools av env w waId messageContent mid pn) = apology_turn)
    \<and> (\<forall>uid st w1. turn_setup av env w waId messageContent pn = (Inr (uid, st), w1) \<longrightarrow>
          processTextMessage tools av env w waId messageContent mid pn
            = \<lparr>tr_response = ''pong'', tr_state = Some st, tr_world = w1\<rparr>
          \<and> last (as_messages st)
            = \<lparr>cm_role = User, cm_content = messageContent, cm_timestamp = e_now env\<rparr>)
    \<and> (\<forall>e w1. turn_setup av env w waId messageContent pn = (Inl e, w1) \<longrightarrow>
          processTextMessage tools av env w waId messageContent mid pn
            = \<lparr>tr_response = apology_turn, tr_state = None, tr_world = w1\<rparr>)"
proof -
  obtain r w1 where s: "turn_setup av env w waId messageContent pn = (r, w1)"
    by (cases "turn_setup av env w waId messageContent pn")
  have u: "untouched w w1" using turn_setup_untouched [of w av env waId messageContent pn] s by simp
  have w: "tr_world (processTextMessage tools av env w waId messageContent mid pn) = w1"
    using s assms by (auto simp: processTextMessage_def split: sum.splits)
  show ?thesis
    using s assms u w turn_setup_last [of av env w waId messageContent pn]
    by (auto simp: processTextMessage_def split: sum.splits)
qed

lemma setup_example_down:
  "turn_setup True example_env (example_world\<lparr>db_connected := False\<rparr>) ''573001112233'' ''Ping?'' None
      = (Inl (PgError ''ECONNREFUSED''), example_world\<lparr>db_connected := False, db_queries := 1\<rparr>)"
  by (simp add: turn_setup_def hola_facts ping_facts UserRepository_getUserByWaId_def
      executeQuery_def example_world_def Let_def)

theorem ping_short_circuit_witness:
  "processTextMessage AVAILABLE_TOOLS True example_env example_world ''573001112233'' ''Ping?''
      (Some ''wamid.A1'') None
    = \<lparr>tr_response = ''pong'', tr_state = Some (example_state ''Ping?''),
       tr_world = example_world\<lparr>db_queries := 3\<rparr>\<rparr>
   \<and> processTextMessage AVAILABLE_TOOLS True example_env (example_world\<lparr>db_connected := False\<rparr>)
      ''573001112233'' ''Ping?'' (Some ''wamid.A1'') None
    = \<lparr>tr_response = apology_turn, tr_state = None,
       tr_world = example_world\<lparr>db_connected := False, db_queries := 1\<rparr>\<rparr>"
  using ping_short_circuit [OF ping_facts(1), where w = example_world and tools = AVAILABLE_TOOLS
      and av = True and env = example_env and waId = "''573001112233''" and mid = "Some ''wamid.A1''"
      and pn = None]
    ping_short_circuit [OF ping_facts(1), where w = "example_world\<lparr>db_connected := False\<rparr>"
      and tools = AVAILABLE_TOOLS
      and av = True and env = example_env and waId = "''573001112233''" and mid = "Some ''wamid.A1''"
      and pn = None]
    setup_example_ping setup_example_down
  by blast



















end
